theory Spec2Isabelle
  imports Complex_Main "HOL-Library.AList"
begin

section \<open>Numbers and strings\<close>

text \<open>
  JavaScript numbers are modelled as exact rationals: ratings, means and counts are
  \<^typ>\<open>rat\<close>, and \<open>Math.round(x)\<close> is the integer \<open>\<lfloor>x + 1/2\<rfloor>\<close> (ties go up). The rounding
  error of IEEE doubles is outside the model. Times are milliseconds, as \<open>Date.now()\<close>
  gives them.

  A string is a list of characters, each one UTF-16 code unit with a code below 256, so
  that \<open>length\<close> is the \<open>length\<close> of JavaScript and what validator.js's \<open>isLength\<close> counts;
  strings with other code units are outside the model. Of the white space and line
  terminators that \<open>String.prototype.trim\<close> strips, seven have a code below 256: tab, line
  feed, vertical tab, form feed, carriage return, space and the no-break space U+00A0.
\<close>

definition Math_round :: "rat \<Rightarrow> int" where
  "Math_round x = \<lfloor>x + 1 / 2\<rfloor>"

definition isWhiteSpace :: "char \<Rightarrow> bool" where
  "isWhiteSpace c = (c \<in> set [CHR 0x09, CHR 0x0A, CHR 0x0B, CHR 0x0C, CHR 0x0D, CHR '' '', CHR 0xA0])"

definition trim :: "string \<Rightarrow> string" where
  "trim s = rev (dropWhile isWhiteSpace (rev (dropWhile isWhiteSpace s)))"

section \<open>Identifiers\<close>

text \<open>
  The constructor \<open>new mongoose.Types.ObjectId(str)\<close> takes a string of 24 hexadecimal
  digits in either case and throws on the other strings the handlers can hand it; such a
  string is a well-formed identifier. The \<open>ObjectId\<close> prints, with \<open>String(pid)\<close> or
  \<open>pid.toString()\<close>, as the same digits in lower case.

  \<open>isMongoId\<close> (express-validator, validator.js) is \<open>isHexadecimal(str) && str.length === 24\<close>
  with \<open>isHexadecimal\<close> the test \<open>/^(0x|0h)?[0-9A-F]+$/i\<close>: besides the well-formed
  identifiers it accepts a prefix \<open>0x\<close> or \<open>0h\<close> followed by 22 digits, on which the
  constructor and mongoose's cast of an \<open>_id\<close> then throw. \<open>mongoose.isValidObjectId\<close> is
  modelled as accepting the well-formed identifiers; the 12-character strings that some
  mongoose versions also accept are not modelled. \<open>toObjectId\<close> is only meant for
  well-formed identifiers.
\<close>

definition isHexDigit :: "char \<Rightarrow> bool" where
  "isHexDigit c = (c \<in> set ''0123456789abcdefABCDEF'')"

definition wellFormedId :: "string \<Rightarrow> bool" where
  "wellFormedId str = (list_all isHexDigit str \<and> length str = 24)"

definition isHexadecimal :: "string \<Rightarrow> bool" where
  "isHexadecimal str =
     (let digits = (if take 2 str \<in> set [''0x'', ''0h'', ''0X'', ''0H''] then drop 2 str else str)
      in digits \<noteq> [] \<and> list_all isHexDigit digits)"

definition isMongoId :: "string \<Rightarrow> bool" where
  "isMongoId str = (isHexadecimal str \<and> length str = 24)"

definition isValidObjectId :: "string \<Rightarrow> bool" where
  "isValidObjectId str = (list_all isHexDigit str \<and> length str = 24)"

definition toLowerCase :: "char \<Rightarrow> char" where
  "toLowerCase c = (case map_of (zip ''ABCDEF'' ''abcdef'') c of Some d \<Rightarrow> d | None \<Rightarrow> c)"

datatype ObjectId = ObjectId (toHexString: string)

definition toObjectId :: "string \<Rightarrow> ObjectId" where
  "toObjectId ident = ObjectId (map toLowerCase ident)"

section \<open>Documents\<close>

datatype status = Pending | Approved | Rejected

text \<open>
  A review document, with the fields \<open>Review.create\<close> is given. The author fields
  (\<open>userId\<close>, \<open>userName\<close>, \<open>userEmail\<close>, \<open>productName\<close>) are carried by no operation below and
  are left out.
\<close>

record review =
  rid :: ObjectId
  productId :: ObjectId
  rating :: rat
  title :: "string option"
  comment :: string
  status :: status
  helpful :: nat
  verified :: bool

text \<open>
  The rating fields of the product schema (\<open>models/Product.ts\<close>): \<open>rating\<close>, \<open>reviews\<close>,
  \<open>averageRating\<close>, \<open>ratingsCount\<close>, all numbers with default 0.
\<close>

record product =
  p_name :: string
  p_rating :: rat
  p_reviews :: rat
  p_averageRating :: rat
  p_ratingsCount :: rat

text \<open>
  One path of an update document. The schema sets no \<open>strict\<close> option, so mongoose's
  default applies and a path that is not in the schema (\<open>reviewsCount\<close>) is dropped from
  the update.
\<close>

definition setPath :: "product \<Rightarrow> string \<times> rat \<Rightarrow> product" where
  "setPath p kv =
     (if fst kv = ''rating'' then p\<lparr>p_rating := snd kv\<rparr>
      else if fst kv = ''reviews'' then p\<lparr>p_reviews := snd kv\<rparr>
      else if fst kv = ''averageRating'' then p\<lparr>p_averageRating := snd kv\<rparr>
      else if fst kv = ''ratingsCount'' then p\<lparr>p_ratingsCount := snd kv\<rparr>
      else p)"

text \<open>JSON values of the response bodies and of the cache.\<close>

datatype json =
    JNum rat
  | JObj "(string \<times> json) list"
  | JDistribution "(rat \<times> nat) list"

definition field :: "json \<Rightarrow> string \<Rightarrow> json option" where
  "field j k = (case j of JObj kvs \<Rightarrow> map_of kvs k | _ \<Rightarrow> None)"


section \<open>Server state\<close>

text \<open>
  The review and product collections and the module's \<open>reviewCache\<close>
  (\<open>new NodeCache({ stdTTL: 60, checkperiod: 120 })\<close>): each key holds a value and the
  time it expires. \<open>routes/reviews.public.ts\<close> and \<open>controllers/reviewController.ts\<close>
  each build a cache of their own; every operation below works on the cache of its module.
\<close>

record server =
  reviews :: "review list"
  products :: "ObjectId \<rightharpoonup> product"
  reviewCache :: "string \<rightharpoonup> (json \<times> int)"

text \<open>
  node-cache: \<open>set\<close> stores the value with expiry \<open>now + 60 s\<close>; \<open>get\<close> finds an entry
  expired when its expiry is below \<open>Date.now()\<close> and deletes it then; \<open>del\<close> removes the
  key.
\<close>

definition cache_set :: "(string \<rightharpoonup> (json \<times> int)) \<Rightarrow> int \<Rightarrow> string \<Rightarrow> json \<Rightarrow> (string \<rightharpoonup> (json \<times> int))" where
  "cache_set c now key v = c(key \<mapsto> (v, now + 60 * 1000))"

definition cache_get :: "(string \<rightharpoonup> (json \<times> int)) \<Rightarrow> int \<Rightarrow> string \<Rightarrow> json option \<times> (string \<rightharpoonup> (json \<times> int))" where
  "cache_get c now key =
     (case c key of
        None \<Rightarrow> (None, c)
      | Some (v, t) \<Rightarrow> if t < now then (None, c(key := None)) else (Some v, c))"

definition cache_del :: "(string \<rightharpoonup> (json \<times> int)) \<Rightarrow> string \<Rightarrow> (string \<rightharpoonup> (json \<times> int))" where
  "cache_del c key = c(key := None)"

text \<open>
  \<open>Product.findByIdAndUpdate(pid, { $set: ... })\<close>: the paths are set on the product with
  that id; nothing happens when there is none.
\<close>

definition product_findByIdAndUpdate :: "server \<Rightarrow> ObjectId \<Rightarrow> (string \<times> rat) list \<Rightarrow> server" where
  "product_findByIdAndUpdate s pid upd =
     (case products s pid of
        None \<Rightarrow> s
      | Some p \<Rightarrow> s\<lparr>products := (products s)(pid \<mapsto> foldl setPath p upd)\<rparr>)"

definition findById :: "review list \<Rightarrow> ObjectId \<Rightarrow> review option" where
  "findById rs k = find (\<lambda>r. rid r = k) rs"

fun updateFirst :: "ObjectId \<Rightarrow> (review \<Rightarrow> review) \<Rightarrow> review list \<Rightarrow> review list" where
  "updateFirst k f [] = []"
| "updateFirst k f (r # rs) = (if rid r = k then f r # rs else r # updateFirst k f rs)"

text \<open>
  The aggregation pipeline \<open>[{ $match }, { $group: { _id: "$productId", count: { $sum: 1 },
  avg: { $avg: "$rating" } } }]\<close>: one row per product id among the matched reviews.
\<close>

record agg_row =
  agg_id :: ObjectId
  agg_count :: nat
  agg_avg :: rat

definition group_by_productId :: "review list \<Rightarrow> agg_row list" where
  "group_by_productId rs =
     map (\<lambda>k. let g = filter (\<lambda>r. productId r = k) rs
              in \<lparr>agg_id = k, agg_count = length g,
                  agg_avg = sum_list (map rating g) / of_nat (length g)\<rparr>)
         (remdups (map productId rs))"

text \<open>\<open>{ $group: { _id: "$rating", count: { $sum: 1 } } }\<close>: one row per rating value.\<close>

definition group_by_rating :: "review list \<Rightarrow> (rat \<times> nat) list" where
  "group_by_rating rs =
     map (\<lambda>k. (k, length (filter (\<lambda>r. rating r = k) rs))) (remdups (map rating rs))"

section \<open>Responses\<close>

datatype body =
    Failure "string list"
  | Success
  | SuccessDoc review
  | SuccessData bool json
  | SuccessMap "string \<rightharpoonup> json"

datatype response = Response (code: nat) (content: body)

section \<open>routes/reviews.public.ts\<close>

text \<open>
  \<open>recomputeProductStats\<close> has no \<open>return\<close>: its promise resolves to \<open>undefined\<close>, which is
  \<open>None\<close> in the first component of the result.
\<close>

definition recomputeProductStats :: "server \<Rightarrow> string \<Rightarrow> (rat \<times> rat) option \<times> server" where
  "recomputeProductStats s productId' =
     (let pid = toObjectId productId';
          agg = group_by_productId (filter (\<lambda>r. productId r = pid \<and> status r = Approved) (reviews s));
          total = (case agg of [] \<Rightarrow> 0 | a # _ \<Rightarrow> of_nat (agg_count a));
          avg = (case agg of [] \<Rightarrow> 0
                 | a # _ \<Rightarrow> if agg_avg a \<noteq> 0 then of_int (Math_round (agg_avg a * 10)) / 10 else 0);
          s1 = product_findByIdAndUpdate s pid
                 [(''rating'', avg), (''reviewsCount'', total),
                  (''averageRating'', avg), (''ratingsCount'', total)]
      in (None, s1\<lparr>reviewCache := cache_del (reviewCache s1) (''review-summary:'' @ productId')\<rparr>))"

text \<open>
  The body of a review-creation request. \<open>None\<close> is a field that is missing; a rating is
  a number and the other fields are strings.
\<close>

record create_request =
  req_productId :: string
  req_rating :: "rat option"
  req_comment :: "string option"
  req_title :: "string option"
  req_userEmail :: "string option"

definition isInt :: "rat option \<Rightarrow> int \<Rightarrow> int \<Rightarrow> bool" where
  "isInt v lo hi =
     (case v of None \<Rightarrow> False
      | Some x \<Rightarrow> of_int \<lfloor>x\<rfloor> = x \<and> of_int lo \<le> x \<and> x \<le> of_int hi)"

definition isLength :: "string option \<Rightarrow> nat \<Rightarrow> nat \<Rightarrow> bool" where
  "isLength v lo hi = (case v of None \<Rightarrow> False | Some str \<Rightarrow> lo \<le> length str \<and> length str \<le> hi)"

text \<open>
  \<open>validationResult(req)\<close> for the validation chain of \<open>POST /products/:productId/reviews\<close>,
  as the list of the fields that failed. validator.js's \<open>isEmail\<close> is a parameter;
  \<open>userName\<close>, a string when it is there, always passes.
\<close>

definition validationResult :: "(string \<Rightarrow> bool) \<Rightarrow> create_request \<Rightarrow> string list" where
  "validationResult isEmail req =
     (if isMongoId (req_productId req) then [] else [''productId'']) @
     (if isInt (req_rating req) 1 5 then [] else [''rating'']) @
     (if isLength (req_comment req) 5 4000 then [] else [''comment'']) @
     (case req_title req of None \<Rightarrow> [] | Some t \<Rightarrow> if length t \<le> 120 then [] else [''title'']) @
     (case req_userEmail req of None \<Rightarrow> [] | Some e \<Rightarrow> if isEmail e then [] else [''userEmail''])"

definition orEmpty :: "string option \<Rightarrow> string" where
  "orEmpty v = (case v of None \<Rightarrow> [] | Some str \<Rightarrow> str)"

text \<open>
  \<open>POST /products/:productId/reviews\<close>. \<open>autoPublish\<close> is the environment flag
  \<open>AUTO_PUBLISH_REVIEWS\<close> and \<open>newId\<close> the \<open>_id\<close> the store gives the new document. When
  \<open>toObjectId\<close> throws, on an identifier that passed \<open>isMongoId\<close> and is not well-formed, the
  \<open>catch\<close> answers 500; nothing has been written by then.
\<close>

definition post_review :: "(string \<Rightarrow> bool) \<Rightarrow> bool \<Rightarrow> ObjectId \<Rightarrow> server \<Rightarrow> create_request \<Rightarrow> response \<times> server" where
  "post_review isEmail autoPublish newId s req =
     (let errors = validationResult isEmail req in
      if errors \<noteq> [] then (Response 400 (Failure errors), s)
      else if \<not> wellFormedId (req_productId req)
      then (Response 500 (Failure [''Server error'']), s)
      else
        let pid = toObjectId (req_productId req) in
        case products s pid of
          None \<Rightarrow> (Response 404 (Failure [''Product not found'']), s)
        | Some found \<Rightarrow>
            let t = trim (orEmpty (req_title req));
                created = \<lparr>rid = newId, productId = pid,
                           rating = (case req_rating req of Some x \<Rightarrow> x | None \<Rightarrow> 0),
                           title = (if t = [] then None else Some t),
                           comment = trim (orEmpty (req_comment req)),
                           status = (if autoPublish then Approved else Pending),
                           helpful = 0, verified = False\<rparr>;
                s1 = s\<lparr>reviews := reviews s @ [created]\<rparr>;
                s2 = (if autoPublish then snd (recomputeProductStats s1 (toHexString pid)) else s1)
            in (Response 201 (SuccessDoc created), s2))"

text \<open>
  \<open>PATCH /reviews/:id/approve\<close>. On an identifier that passed \<open>isMongoId\<close> and is not
  well-formed, \<open>findByIdAndUpdate\<close> fails to cast the \<open>_id\<close> and the \<open>catch\<close> answers 500.
\<close>

definition patch_approve :: "server \<Rightarrow> string \<Rightarrow> response \<times> server" where
  "patch_approve s ident =
     (if \<not> isMongoId ident then (Response 400 (Failure [''id'']), s)
      else if \<not> wellFormedId ident then (Response 500 (Failure [''Server error'']), s)
      else
        let k = toObjectId ident;
            s1 = s\<lparr>reviews := updateFirst k (\<lambda>r. r\<lparr>status := Approved\<rparr>) (reviews s)\<rparr>
        in case findById (reviews s1) k of
             None \<Rightarrow> (Response 404 (Failure [''Review not found'']), s1)
           | Some doc \<Rightarrow>
               (Response 200 Success, snd (recomputeProductStats s1 (toHexString (productId doc)))))"

text \<open>
  \<open>POST /reviews/:id/helpful\<close>: \<open>$inc\<close> with \<open>upsert: false\<close>, the result is not looked at; 500
  when the \<open>_id\<close> cannot be cast.
\<close>

definition post_helpful :: "server \<Rightarrow> string \<Rightarrow> response \<times> server" where
  "post_helpful s ident =
     (if \<not> isMongoId ident then (Response 400 (Failure [''id'']), s)
      else if \<not> wellFormedId ident then (Response 500 (Failure [''Server error'']), s)
      else
        (Response 200 Success,
         s\<lparr>reviews := updateFirst (toObjectId ident) (\<lambda>r. r\<lparr>helpful := helpful r + 1\<rparr>) (reviews s)\<rparr>))"

text \<open>
  \<open>GET /reviews/summary\<close> at time \<open>now\<close>. The cache is looked up under the raw identifier
  before \<open>toObjectId\<close> is called; 500 when that throws.
\<close>

definition get_summary :: "int \<Rightarrow> server \<Rightarrow> string \<Rightarrow> response \<times> server" where
  "get_summary now s productId' =
     (if \<not> isMongoId productId' then (Response 400 (Failure [''productId'']), s)
      else
        let cacheKey = ''review-summary:'' @ productId';
            looked = cache_get (reviewCache s) now cacheKey;
            s0 = s\<lparr>reviewCache := snd looked\<rparr>
        in case fst looked of
             Some cached \<Rightarrow> (Response 200 (SuccessData True cached), s0)
           | None \<Rightarrow>
               if \<not> wellFormedId productId' then (Response 500 (Failure [''Server error'']), s0)
               else
               let pid = toObjectId productId';
                   agg = group_by_productId
                           (filter (\<lambda>r. productId r = pid \<and> status r = Approved) (reviews s0));
                   total = (case agg of [] \<Rightarrow> 0 | a # _ \<Rightarrow> of_nat (agg_count a));
                   avg = (case agg of [] \<Rightarrow> 0
                          | a # _ \<Rightarrow> if agg_avg a \<noteq> 0 then of_int (Math_round (agg_avg a * 10)) / 10 else 0);
                   s1 = product_findByIdAndUpdate s0 pid
                          [(''rating'', avg), (''reviewsCount'', total),
                           (''averageRating'', avg), (''ratingsCount'', total)];
                   summary = JObj [(''avg'', JNum avg), (''total'', JNum total),
                                   (''averageRating'', JNum avg), (''reviewCount'', JNum total)]
               in (Response 200 (SuccessData False summary),
                   s1\<lparr>reviewCache := cache_set (reviewCache s1) now cacheKey summary\<rparr>))"

text \<open>
  \<open>POST /reviews/bulk-summary\<close>. \<open>None\<close> is a body whose \<open>productIds\<close> is not an array. The
  handler reads the reviews only.
\<close>

definition post_bulk_summary :: "server \<Rightarrow> string list option \<Rightarrow> response" where
  "post_bulk_summary s body_productIds =
     (let productIds = (case body_productIds of Some xs \<Rightarrow> take 300 xs | None \<Rightarrow> []);
          ids = map toObjectId (filter isValidObjectId productIds)
      in if ids = [] then Response 200 (SuccessMap Map.empty)
         else
           let agg = group_by_productId
                       (filter (\<lambda>r. productId r \<in> set ids \<and> status r = Approved) (reviews s));
               data = foldl (\<lambda>d a.
                        let avg = (if agg_avg a \<noteq> 0 then of_int (Math_round (agg_avg a * 10)) / 10 else 0);
                            total = of_nat (agg_count a)
                        in d(toHexString (agg_id a) \<mapsto>
                               JObj [(''avg'', JNum avg), (''total'', JNum total),
                                     (''averageRating'', JNum avg), (''reviewCount'', JNum total)]))
                      Map.empty agg
           in Response 200 (SuccessMap data))"

section \<open>controllers/reviewController.ts\<close>

text \<open>
  \<open>recalcProductRating\<close> takes an \<open>ObjectId\<close> or a string and turns a string into an
  \<open>ObjectId\<close> first; here it takes the \<open>ObjectId\<close>, and a caller that passes a string
  converts it. \<open>AUTO_APPROVE_REVIEWS\<close> is the parameter \<open>autoApprove\<close>.
\<close>

definition recalcProductRating :: "server \<Rightarrow> ObjectId \<Rightarrow> (rat \<times> rat) option \<times> server" where
  "recalcProductRating s pid =
     (let agg = group_by_productId (filter (\<lambda>r. productId r = pid \<and> status r = Approved) (reviews s));
          avg = (case agg of [] \<Rightarrow> 0 | a # _ \<Rightarrow> agg_avg a);
          count = (case agg of [] \<Rightarrow> 0 | a # _ \<Rightarrow> of_nat (agg_count a));
          s1 = product_findByIdAndUpdate s pid
                 [(''rating'', of_int (Math_round (avg * 10)) / 10), (''reviewsCount'', count)]
      in (None, s1\<lparr>reviewCache := cache_del (reviewCache s1) (''review-summary:'' @ toHexString pid)\<rparr>))"

definition createReview :: "bool \<Rightarrow> ObjectId \<Rightarrow> server \<Rightarrow> create_request \<Rightarrow> response \<times> server" where
  "createReview autoApprove newId s req =
     (if \<not> isValidObjectId (req_productId req)
      then (Response 400 (Failure [''Valid productId required'']), s)
      else
        case req_rating req of
          None \<Rightarrow> (Response 400 (Failure [''rating must be 1..5'']), s)
        | Some r \<Rightarrow>
            if r = 0 \<or> r < 1 \<or> r > 5 then (Response 400 (Failure [''rating must be 1..5'']), s)
            else
              let title' = take 120 (trim (orEmpty (req_title req)));
                  comment' = trim (orEmpty (req_comment req))
              in if length comment' < 5 then (Response 400 (Failure [''comment is too short'']), s)
                 else if length comment' > 4000
                 then (Response 400 (Failure [''comment too long (max 4000 chars)'']), s)
                 else
                   let status' = (if autoApprove then Approved else Pending);
                       doc = \<lparr>rid = newId, productId = toObjectId (req_productId req), rating = r,
                              title = Some title', comment = comment', status = status',
                              helpful = 0, verified = False\<rparr>;
                       s1 = s\<lparr>reviews := reviews s @ [doc]\<rparr>;
                       s2 = (if status' = Approved
                             then snd (recalcProductRating s1 (toObjectId (req_productId req)))
                             else s1)
                   in (Response 201 (SuccessDoc doc), s2))"

definition adminSetReviewStatus :: "server \<Rightarrow> string \<Rightarrow> status \<Rightarrow> response \<times> server" where
  "adminSetReviewStatus s ident status' =
     (if \<not> isValidObjectId ident then (Response 400 (Failure [''Invalid review id'']), s)
      else
        let k = toObjectId ident;
            s1 = s\<lparr>reviews := updateFirst k (\<lambda>r. r\<lparr>status := status'\<rparr>) (reviews s)\<rparr>
        in case findById (reviews s1) k of
             None \<Rightarrow> (Response 404 (Failure [''Review not found'']), s1)
           | Some doc \<Rightarrow> (Response 200 (SuccessDoc doc), snd (recalcProductRating s1 (productId doc))))"

text \<open>
  \<open>getReviewSummary\<close>: the response spreads the summary (or the cached one) next to
  \<open>success\<close> and \<open>cached\<close>; \<open>SuccessData\<close> holds the spread object.
\<close>

definition getReviewSummary :: "int \<Rightarrow> server \<Rightarrow> string \<Rightarrow> response \<times> server" where
  "getReviewSummary now s productId' =
     (if \<not> isValidObjectId productId'
      then (Response 400 (Failure [''Valid productId required'']), s)
      else
        let cacheKey = ''review-summary:'' @ productId';
            looked = cache_get (reviewCache s) now cacheKey;
            s0 = s\<lparr>reviewCache := snd looked\<rparr>
        in case fst looked of
             Some cached \<Rightarrow> (Response 200 (SuccessData True cached), s0)
           | None \<Rightarrow>
               let pid = toObjectId productId';
                   agg = group_by_rating
                           (filter (\<lambda>r. productId r = pid \<and> status r = Approved) (reviews s0));
                   distribution = foldl (\<lambda>d row. AList.update (fst row) (snd row) d)
                                    [(1, 0), (2, 0), (3, 0), (4, 0), (5, 0)] agg;
                   total = sum_list (map snd distribution);
                   avg = (if total \<noteq> 0
                          then sum_list (map (\<lambda>e. fst e * of_nat (snd e)) distribution) / of_nat total
                          else 0);
                   summary = JObj [(''distribution'', JDistribution distribution),
                                   (''total'', JNum (of_nat total)),
                                   (''avg'', JNum (of_int (Math_round (avg * 10)) / 10))]
               in (Response 200 (SuccessData False summary),
                   s0\<lparr>reviewCache := cache_set (reviewCache s0) now cacheKey summary\<rparr>))"

definition getBulkReviewSummaries :: "server \<Rightarrow> string list option \<Rightarrow> response" where
  "getBulkReviewSummaries s body_productIds =
     (case body_productIds of
        None \<Rightarrow> Response 400 (Failure [''productIds required''])
      | Some productIds \<Rightarrow>
          if productIds = [] then Response 400 (Failure [''productIds required''])
          else
            let ids = map toObjectId (filter isValidObjectId productIds)
            in if ids = [] then Response 200 (SuccessMap Map.empty)
               else
                 let agg = group_by_productId
                             (filter (\<lambda>r. productId r \<in> set ids \<and> status r = Approved) (reviews s));
                     summaries = foldl (\<lambda>d a.
                                   d(toHexString (agg_id a) \<mapsto>
                                       JObj [(''avg'', JNum (if agg_avg a \<noteq> 0
                                                             then of_int (Math_round (agg_avg a * 10)) / 10
                                                             else 0)),
                                             (''total'', JNum (of_nat (agg_count a)))]))
                                 Map.empty agg
                 in Response 200 (SuccessMap summaries))"

section \<open>services/reviewsService.ts (client)\<close>

record ReviewSummary =
  averageRating :: rat
  reviewCount :: rat

record 'a CacheEntry =
  entry_value :: 'a
  expires :: int

definition DEFAULT_TTL :: int where
  "DEFAULT_TTL = 30000"

definition readCache :: "(string \<rightharpoonup> 'a CacheEntry) \<Rightarrow> int \<Rightarrow> string \<Rightarrow> 'a option \<times> (string \<rightharpoonup> 'a CacheEntry)" where
  "readCache m now key =
     (case m key of
        None \<Rightarrow> (None, m)
      | Some hit \<Rightarrow> if now > expires hit then (None, m(key := None)) else (Some (entry_value hit), m))"

definition writeCache :: "(string \<rightharpoonup> 'a CacheEntry) \<Rightarrow> int \<Rightarrow> string \<Rightarrow> 'a \<Rightarrow> int \<Rightarrow> (string \<rightharpoonup> 'a CacheEntry)" where
  "writeCache m now key v ttl = m(key \<mapsto> \<lparr>entry_value = v, expires = now + ttl\<rparr>)"






text \<open>The \<open>data\<close> object the routes endpoint sends back for a list of identifiers.\<close>

definition bulk_summary_data :: "server \<Rightarrow> string list \<Rightarrow> (string \<rightharpoonup> json)" where
  "bulk_summary_data s missing =
     (case content (post_bulk_summary s (Some missing)) of SuccessMap d \<Rightarrow> d | _ \<Rightarrow> Map.empty)"

section \<open>The aggregate, in the words of the specification\<close>

text \<open>
  The rating values of the reviews of a product that are approved, their count, and their
  arithmetic mean rounded to one decimal (0 when there are none).
\<close>

definition approved_ratings :: "server \<Rightarrow> ObjectId \<Rightarrow> rat list" where
  "approved_ratings s pid = map rating (filter (\<lambda>r. productId r = pid \<and> status r = Approved) (reviews s))"

definition round1 :: "rat \<Rightarrow> rat" where
  "round1 x = of_int \<lfloor>x * 10 + 1 / 2\<rfloor> / 10"

definition spec_mean :: "rat list \<Rightarrow> rat" where
  "spec_mean xs = (if xs = [] then 0 else round1 (sum_list xs / of_nat (length xs)))"

definition spec_count :: "rat list \<Rightarrow> rat" where
  "spec_count xs = of_nat (length xs)"

section \<open>Reading the responses\<close>

text \<open>A field of the summary object a response carries.\<close>

definition summary_field :: "response \<Rightarrow> string \<Rightarrow> json option" where
  "summary_field r k = (case content r of SuccessData c j \<Rightarrow> field j k | _ \<Rightarrow> None)"

text \<open>
  The status code of a creation request whose rating and comment are \<open>r\<close> and \<open>c\<close>, on the
  routes handler and on the controller.
\<close>

definition route_code :: "(string \<Rightarrow> bool) \<Rightarrow> bool \<Rightarrow> ObjectId \<Rightarrow> server \<Rightarrow> create_request \<Rightarrow> rat \<Rightarrow> string \<Rightarrow> nat" where
  "route_code isEmail autoPublish newId s req r c =
     code (fst (post_review isEmail autoPublish newId s (req\<lparr>req_rating := Some r, req_comment := Some c\<rparr>)))"

definition controller_code :: "bool \<Rightarrow> ObjectId \<Rightarrow> server \<Rightarrow> create_request \<Rightarrow> rat \<Rightarrow> string \<Rightarrow> nat" where
  "controller_code autoApprove newId s req r c =
     code (fst (createReview autoApprove newId s (req\<lparr>req_rating := Some r, req_comment := Some c\<rparr>)))"

text \<open>
  A summary object that carries the mean and the count under both spellings, and a cache
  that holds only such objects.
\<close>

definition dual_spelled :: "json \<Rightarrow> bool" where
  "dual_spelled j =
     (case (field j ''avg'', field j ''total'') of
        (Some (JNum a), Some (JNum n)) \<Rightarrow>
           field j ''averageRating'' = Some (JNum a) \<and> field j ''reviewCount'' = Some (JNum n)
      | _ \<Rightarrow> False)"

definition cache_dual :: "server \<Rightarrow> bool" where
  "cache_dual s = (\<forall>key v t. reviewCache s key = Some (v, t) \<longrightarrow> dual_spelled v)"

definition summary_of :: "response \<Rightarrow> json option" where
  "summary_of r = (case content r of SuccessData c j \<Rightarrow> Some j | _ \<Rightarrow> None)"

text \<open>The \<open>data\<close> object the controller's bulk endpoint sends back.\<close>

definition controller_bulk_data :: "server \<Rightarrow> string list \<Rightarrow> (string \<rightharpoonup> json)" where
  "controller_bulk_data s productIds =
     (case content (getBulkReviewSummaries s (Some productIds)) of SuccessMap d \<Rightarrow> d | _ \<Rightarrow> Map.empty)"

section \<open>Sequences of requests\<close>

text \<open>
  The requests of \<open>routes/reviews.public.ts\<close> that change the state, and the state they
  leave. \<open>aggregates_current\<close> says that every product carries the aggregate of its
  approved reviews in \<open>rating\<close>, \<open>averageRating\<close> and \<open>ratingsCount\<close>, and that the product
  identifiers of the reviews print as they parse.
\<close>

definition canonical :: "ObjectId \<Rightarrow> bool" where
  "canonical pid = (toObjectId (toHexString pid) = pid)"

definition current :: "server \<Rightarrow> ObjectId \<Rightarrow> product \<Rightarrow> bool" where
  "current s pid p =
     (p_rating p = spec_mean (approved_ratings s pid) \<and>
      p_averageRating p = spec_mean (approved_ratings s pid) \<and>
      p_ratingsCount p = spec_count (approved_ratings s pid))"

definition aggregates_current :: "server \<Rightarrow> bool" where
  "aggregates_current s =
     ((\<forall>r\<in>set (reviews s). canonical (productId r)) \<and>
      (\<forall>pid p. products s pid = Some p \<longrightarrow> current s pid p))"

datatype request =
    PostReview create_request ObjectId
  | Approve string
  | Helpful string
  | Summary int string

fun handle :: "(string \<Rightarrow> bool) \<Rightarrow> bool \<Rightarrow> server \<Rightarrow> request \<Rightarrow> server" where
  "handle isEmail autoPublish s (PostReview req newId) = snd (post_review isEmail autoPublish newId s req)"
| "handle isEmail autoPublish s (Approve ident) = snd (patch_approve s ident)"
| "handle isEmail autoPublish s (Helpful ident) = snd (post_helpful s ident)"
| "handle isEmail autoPublish s (Summary now productId') = snd (get_summary now s productId')"

section \<open>A shop with one product and one review\<close>

definition ex_pid :: string where
  "ex_pid = ''aaaaaaaaaaaaaaaaaaaaaaaa''"

definition ex_rid :: string where
  "ex_rid = ''bbbbbbbbbbbbbbbbbbbbbbbb''"

definition ex_product :: product where
  "ex_product = \<lparr>p_name = ''cable'', p_rating = 0, p_reviews = 0, p_averageRating = 0, p_ratingsCount = 0\<rparr>"

definition ex_review :: "status \<Rightarrow> review" where
  "ex_review st = \<lparr>rid = ObjectId ex_rid, productId = ObjectId ex_pid, rating = 5, title = None,
                    comment = ''works well'', status = st, helpful = 0, verified = False\<rparr>"

definition ex_server :: "status \<Rightarrow> server" where
  "ex_server st = \<lparr>reviews = [ex_review st], products = [ObjectId ex_pid \<mapsto> ex_product],
                    reviewCache = Map.empty\<rparr>"

definition ex_request :: "rat \<Rightarrow> string \<Rightarrow> create_request" where
  "ex_request r c = \<lparr>req_productId = ex_pid, req_rating = Some r, req_comment = Some c,
                      req_title = None, req_userEmail = None\<rparr>"

text \<open>A list of 301 identifiers; the last one is the product of the shop above.\<close>

definition ex_ids301 :: "string list" where
  "ex_ids301 = replicate 300 ex_rid @ [ex_pid]"

text \<open>
  The same product spelled in upper case, a cached summary of no reviews under that
  spelling, and the state after the review has been approved with that entry in the cache.
\<close>

definition ex_PID :: string where
  "ex_PID = ''AAAAAAAAAAAAAAAAAAAAAAAA''"

definition ex_zero_summary :: json where
  "ex_zero_summary = JObj [(''avg'', JNum 0), (''total'', JNum 0), (''averageRating'', JNum 0), (''reviewCount'', JNum 0)]"

definition ex_cached :: "status \<Rightarrow> server" where
  "ex_cached st = (ex_server st)\<lparr>reviewCache := [''review-summary:'' @ ex_PID \<mapsto> (ex_zero_summary, 60000)]\<rparr>"

definition ex_stale :: server where
  "ex_stale = \<lparr>reviews = [ex_review Approved],
               products = [ObjectId ex_pid \<mapsto> ex_product\<lparr>p_rating := 5, p_averageRating := 5, p_ratingsCount := 1\<rparr>],
               reviewCache = [''review-summary:'' @ ex_PID \<mapsto> (ex_zero_summary, 60000)]\<rparr>"

text \<open>
  An identifier that passes \<open>isMongoId\<close> without being well-formed, and a request for it
  whose other fields are valid.
\<close>

definition ex_xid :: string where
  "ex_xid = ''0xaaaaaaaaaaaaaaaaaaaaaa''"

definition ex_xrequest :: create_request where
  "ex_xrequest = \<lparr>req_productId = ex_xid, req_rating = Some 5, req_comment = Some ''works well'',
                   req_title = None, req_userEmail = None\<rparr>"

section \<open>Auxiliary facts\<close>

subsection \<open>Identifiers and lists\<close>

lemma wellFormedId_isMongoId:
  assumes "wellFormedId str"
  shows "isMongoId str"
proof -
  from assms obtain a b rest where str: "str = a # b # rest"
    by (cases str; cases "tl str") (auto simp: wellFormedId_def)
  with assms have "isHexDigit b"
    by (simp add: wellFormedId_def)
  then have "take 2 str \<notin> set [''0x'', ''0h'', ''0X'', ''0H'']"
    unfolding str by (auto simp: isHexDigit_def)
  with assms show ?thesis
    by (auto simp: isMongoId_def isHexadecimal_def wellFormedId_def Let_def)
qed

lemma wellFormedId_ex_pid: "wellFormedId ex_pid"
  by (simp add: wellFormedId_def ex_pid_def isHexDigit_def)

lemma isMongoId_ex_pid: "isMongoId ex_pid"
  by (rule wellFormedId_isMongoId [OF wellFormedId_ex_pid])

lemma toObjectId_ex_pid: "toObjectId ex_pid = ObjectId ex_pid"
  by (simp add: toObjectId_def ex_pid_def toLowerCase_def)

lemma wellFormedId_ex_rid: "wellFormedId ex_rid"
  by (simp add: wellFormedId_def ex_rid_def isHexDigit_def)

lemma isMongoId_ex_rid: "isMongoId ex_rid"
  by (rule wellFormedId_isMongoId [OF wellFormedId_ex_rid])

lemma toObjectId_ex_rid: "toObjectId ex_rid = ObjectId ex_rid"
  by (simp add: toObjectId_def ex_rid_def toLowerCase_def)

lemma isMongoId_ex_xid: "isMongoId ex_xid"
  by (simp add: isMongoId_def isHexadecimal_def ex_xid_def isHexDigit_def)

lemma not_wellFormedId_ex_xid: "\<not> wellFormedId ex_xid"
  by (simp add: wellFormedId_def ex_xid_def isHexDigit_def)

lemma updateFirst_absent: "find (\<lambda>r. rid r = k) rs = None \<Longrightarrow> updateFirst k f rs = rs"
  by (induction rs) (auto split: if_splits)

lemma map_const_replicate: "\<forall>x\<in>set xs. f x = c \<Longrightarrow> map f xs = replicate (length xs) c"
  by (induction xs) auto

lemma remdups_replicate_same: "remdups (replicate n x) = (if n = 0 then [] else [x])"
  by (induction n) auto

lemma floor_half: "\<lfloor>(1::rat) / 2\<rfloor> = 0"
  by (simp add: floor_eq_iff)

subsection \<open>The aggregation pipeline\<close>

text \<open>Reviews of one product make one group.\<close>

lemma group_single:
  assumes "\<forall>r\<in>set rs. productId r = pid"
  shows "group_by_productId rs =
     (if rs = [] then []
      else [\<lparr>agg_id = pid, agg_count = length rs, agg_avg = sum_list (map rating rs) / of_nat (length rs)\<rparr>])"
proof -
  have m: "map productId rs = replicate (length rs) pid"
    using assms by (rule map_const_replicate)
  have f: "filter (\<lambda>r. productId r = pid) rs = rs"
    using assms by (simp add: filter_id_conv)
  show ?thesis
    by (simp add: group_by_productId_def m remdups_replicate_same f)
qed

lemma agg_total:
  "(case group_by_productId (filter (\<lambda>r. productId r = pid \<and> status r = Approved) (reviews s)) of
      [] \<Rightarrow> 0 | a # _ \<Rightarrow> of_nat (agg_count a)) = spec_count (approved_ratings s pid)"
  by (subst group_single[where pid = pid]) (auto simp: spec_count_def approved_ratings_def)

lemma agg_mean:
  "(case group_by_productId (filter (\<lambda>r. productId r = pid \<and> status r = Approved) (reviews s)) of
      [] \<Rightarrow> 0 | a # _ \<Rightarrow> if agg_avg a \<noteq> 0 then of_int (Math_round (agg_avg a * 10)) / 10 else 0)
   = spec_mean (approved_ratings s pid)"
  by (subst group_single[where pid = pid])
     (auto simp: spec_mean_def approved_ratings_def round1_def Math_round_def floor_half)

lemma agg_mean_ctrl:
  "of_int (Math_round ((case group_by_productId (filter (\<lambda>r. productId r = pid \<and> status r = Approved) (reviews s)) of
      [] \<Rightarrow> 0 | a # _ \<Rightarrow> agg_avg a) * 10)) / 10
   = spec_mean (approved_ratings s pid)"
  by (subst group_single[where pid = pid])
     (auto simp: spec_mean_def approved_ratings_def round1_def Math_round_def floor_half)

text \<open>What \<open>recomputeProductStats\<close> does, with the aggregate named.\<close>

lemma recompute_eq:
  "recomputeProductStats s productId' =
     (None, (product_findByIdAndUpdate s (toObjectId productId')
                 [(''rating'', spec_mean (approved_ratings s (toObjectId productId'))),
                  (''reviewsCount'', spec_count (approved_ratings s (toObjectId productId'))),
                  (''averageRating'', spec_mean (approved_ratings s (toObjectId productId'))),
                  (''ratingsCount'', spec_count (approved_ratings s (toObjectId productId')))])
             \<lparr>reviewCache := cache_del (reviewCache s) (''review-summary:'' @ productId')\<rparr>)"
  unfolding recomputeProductStats_def Let_def agg_total agg_mean
  by (simp add: product_findByIdAndUpdate_def split: option.splits)

subsection \<open>Validation of a new review\<close>

lemma route_code_eq:
  assumes "wellFormedId (req_productId req)"
    and "products s (toObjectId (req_productId req)) = Some p"
    and "case req_title req of None \<Rightarrow> True | Some t \<Rightarrow> length t \<le> 120"
    and "case req_userEmail req of None \<Rightarrow> True | Some e \<Rightarrow> isEmail e"
  shows "route_code isEmail autoPublish newId s req r c =
     (if isInt (Some r) 1 5 \<and> 5 \<le> length c \<and> length c \<le> 4000 then 201 else 400)"
  using assms wellFormedId_isMongoId [OF assms(1)]
  by (auto simp: route_code_def post_review_def validationResult_def Let_def isLength_def
      split: option.splits)

lemma controller_code_eq:
  assumes "isValidObjectId (req_productId req)"
  shows "controller_code autoApprove newId s req r c =
     (if 1 \<le> r \<and> r \<le> 5 \<and> 5 \<le> length (trim c) \<and> length (trim c) \<le> 4000 then 201 else 400)"
  using assms
  by (auto simp: controller_code_def createReview_def Let_def orEmpty_def)

lemma trim_padded:
  assumes "\<not> isWhiteSpace a"
  shows "trim (replicate (Suc n) a @ '' '') = replicate (Suc n) a"
proof -
  have 1: "dropWhile isWhiteSpace (replicate (Suc n) a @ '' '') = replicate (Suc n) a @ '' ''"
    using assms by simp
  have 2: "rev (replicate (Suc n) a @ '' '') = CHR '' '' # replicate (Suc n) a"
    by (simp add: replicate_append_same)
  have 3: "dropWhile isWhiteSpace (CHR '' '' # replicate (Suc n) a) = replicate (Suc n) a"
    using assms by (simp add: isWhiteSpace_def)
  show ?thesis
    unfolding trim_def 1 2 3 by (simp add: replicate_append_same)
qed

subsection \<open>The summary read and its cache\<close>

text \<open>What \<open>GET /reviews/summary\<close> does, with the aggregate named.\<close>

lemma get_summary_eq:
  assumes "wellFormedId productId'"
  shows "get_summary now s productId' =
     (case fst (cache_get (reviewCache s) now (''review-summary:'' @ productId')) of
        Some cached \<Rightarrow> (Response 200 (SuccessData True cached),
                        s\<lparr>reviewCache := snd (cache_get (reviewCache s) now (''review-summary:'' @ productId'))\<rparr>)
      | None \<Rightarrow>
          (Response 200 (SuccessData False
             (JObj [(''avg'', JNum (spec_mean (approved_ratings s (toObjectId productId')))),
                    (''total'', JNum (spec_count (approved_ratings s (toObjectId productId')))),
                    (''averageRating'', JNum (spec_mean (approved_ratings s (toObjectId productId')))),
                    (''reviewCount'', JNum (spec_count (approved_ratings s (toObjectId productId'))))])),
           (product_findByIdAndUpdate s (toObjectId productId')
              [(''rating'', spec_mean (approved_ratings s (toObjectId productId'))),
               (''reviewsCount'', spec_count (approved_ratings s (toObjectId productId'))),
               (''averageRating'', spec_mean (approved_ratings s (toObjectId productId'))),
               (''ratingsCount'', spec_count (approved_ratings s (toObjectId productId')))])
           \<lparr>reviewCache := cache_set (snd (cache_get (reviewCache s) now (''review-summary:'' @ productId')))
                              now (''review-summary:'' @ productId')
             (JObj [(''avg'', JNum (spec_mean (approved_ratings s (toObjectId productId')))),
                    (''total'', JNum (spec_count (approved_ratings s (toObjectId productId')))),
                    (''averageRating'', JNum (spec_mean (approved_ratings s (toObjectId productId')))),
                    (''reviewCount'', JNum (spec_count (approved_ratings s (toObjectId productId'))))])\<rparr>))"
proof -
  have r: "reviews (s\<lparr>reviewCache := c\<rparr>) = reviews s" for c by simp
  have a: "approved_ratings (s\<lparr>reviewCache := c\<rparr>) pid = approved_ratings s pid" for c pid
    by (simp add: approved_ratings_def)
  show ?thesis
    using assms wellFormedId_isMongoId [OF assms]
    unfolding get_summary_def Let_def
    apply (simp only: if_False not_not simp_thms)
    apply (cases "fst (cache_get (reviewCache s) now (''review-summary:'' @ productId'))")
     apply (simp_all only: option.case agg_total agg_mean a)
    apply (simp add: product_findByIdAndUpdate_def split: option.splits)
    done
qed

lemma update_reviewCache [simp]: "reviewCache (product_findByIdAndUpdate s pid upd) = reviewCache s"
  by (simp add: product_findByIdAndUpdate_def split: option.splits)

lemma update_reviews [simp]: "reviews (product_findByIdAndUpdate s pid upd) = reviews s"
  by (simp add: product_findByIdAndUpdate_def split: option.splits)

lemma cache_dual_del: "cache_dual s \<Longrightarrow> reviewCache s' = cache_del (reviewCache s) k \<Longrightarrow> cache_dual s'"
  by (auto simp: cache_dual_def cache_del_def split: if_splits)

lemma cache_dual_recompute: "cache_dual s \<Longrightarrow> cache_dual (snd (recomputeProductStats s productId'))"
  by (rule cache_dual_del [where k = "''review-summary:'' @ productId'"]) (simp_all add: recompute_eq)

lemma cache_dual_post_review:
  "cache_dual s \<Longrightarrow> cache_dual (snd (post_review isEmail autoPublish newId s req))"
proof -
  assume d: "cache_dual s"
  have e: "cache_dual (s\<lparr>reviews := rs\<rparr>)" for rs
    using d by (simp add: cache_dual_def)
  show ?thesis
    using d e cache_dual_recompute [OF e]
    by (simp add: post_review_def Let_def split: option.splits)
qed

lemma cache_dual_patch_approve: "cache_dual s \<Longrightarrow> cache_dual (snd (patch_approve s ident))"
proof -
  assume d: "cache_dual s"
  have e: "cache_dual (s\<lparr>reviews := rs\<rparr>)" for rs
    using d by (simp add: cache_dual_def)
  show ?thesis
    using d e cache_dual_recompute [OF e]
    by (simp add: patch_approve_def Let_def split: option.splits)
qed

lemma cache_dual_post_helpful: "cache_dual s \<Longrightarrow> cache_dual (snd (post_helpful s ident))"
  by (simp add: post_helpful_def cache_dual_def)

lemma dual_spelled_summary:
  "dual_spelled (JObj [(''avg'', JNum a), (''total'', JNum n), (''averageRating'', JNum a), (''reviewCount'', JNum n)])"
  by (simp add: dual_spelled_def field_def)

lemma cache_get_cases:
  "(fst (cache_get c now k) = None \<and> (snd (cache_get c now k) = c \<or> snd (cache_get c now k) = c(k := None))) \<or>
   (\<exists>v t. c k = Some (v, t) \<and> fst (cache_get c now k) = Some v \<and> snd (cache_get c now k) = c)"
  by (auto simp: cache_get_def split: option.splits)

text \<open>On an identifier that is not well-formed the summary read can only evict its key.\<close>

lemma get_summary_ill:
  assumes "\<not> wellFormedId productId'"
  shows "reviews (snd (get_summary now s productId')) = reviews s \<and>
         products (snd (get_summary now s productId')) = products s \<and>
         (reviewCache (snd (get_summary now s productId')) = reviewCache s \<or>
          reviewCache (snd (get_summary now s productId'))
            = cache_del (reviewCache s) (''review-summary:'' @ productId'))"
  using assms cache_get_cases [of "reviewCache s" now "''review-summary:'' @ productId'"]
  by (cases "fst (cache_get (reviewCache s) now (''review-summary:'' @ productId'))")
     (auto simp: get_summary_def Let_def cache_del_def)

lemma cache_dual_get_summary:
  assumes "cache_dual s"
  shows "cache_dual (snd (get_summary now s productId'))"
proof (cases "wellFormedId productId'")
  case False
  note ill = get_summary_ill [OF False, of now s]
  have "reviewCache s key = Some (v, t)"
    if "reviewCache (snd (get_summary now s productId')) key = Some (v, t)" for key v t
    using ill [THEN conjunct2, THEN conjunct2] that
    by (auto simp: cache_del_def split: if_splits)
  with assms show ?thesis unfolding cache_dual_def by blast
next
  case True
  let ?k = "''review-summary:'' @ productId'"
  from cache_get_cases [of "reviewCache s" now ?k]
  show ?thesis
  proof (elim disjE conjE exE)
    fix v t
    assume "reviewCache s ?k = Some (v, t)" "fst (cache_get (reviewCache s) now ?k) = Some v"
      "snd (cache_get (reviewCache s) now ?k) = reviewCache s"
    then show ?thesis
      using assms by (simp add: get_summary_eq [OF True] cache_dual_def)
  next
    assume "fst (cache_get (reviewCache s) now ?k) = None" "snd (cache_get (reviewCache s) now ?k) = reviewCache s"
    then show ?thesis
      using assms dual_spelled_summary
      by (auto simp: get_summary_eq [OF True] cache_dual_def cache_set_def split: if_splits)
  next
    assume "fst (cache_get (reviewCache s) now ?k) = None"
      "snd (cache_get (reviewCache s) now ?k) = (reviewCache s)(?k := None)"
    then show ?thesis
      using assms dual_spelled_summary
      by (auto simp: get_summary_eq [OF True] cache_dual_def cache_set_def split: if_splits)
  qed
qed

subsection \<open>The bulk endpoint\<close>

lemma foldl_upd_dom: "dom (foldl (\<lambda>d a. d(f a \<mapsto> g a)) d0 xs) = dom d0 \<union> f ` set xs"
  by (induction xs arbitrary: d0) auto

lemma group_ids: "agg_id ` set (group_by_productId rs) = productId ` set rs"
  by (auto simp: group_by_productId_def Let_def image_iff)

lemma bulk_data_dom:
  "dom (bulk_summary_data s productIds) =
     toHexString ` {pid \<in> toObjectId ` set (filter isValidObjectId (take 300 productIds)).
                      approved_ratings s pid \<noteq> []}"
proof (cases "filter isValidObjectId (take 300 productIds) = []")
  case True
  then show ?thesis
    by (simp add: bulk_summary_data_def post_bulk_summary_def)
next
  case False
  let ?ids = "map toObjectId (filter isValidObjectId (take 300 productIds))"
  let ?rs = "filter (\<lambda>r. productId r \<in> set ?ids \<and> status r = Approved) (reviews s)"
  have "dom (bulk_summary_data s productIds) = (\<lambda>a. toHexString (agg_id a)) ` set (group_by_productId ?rs)"
    using False
    by (simp add: bulk_summary_data_def post_bulk_summary_def Let_def foldl_upd_dom)
  also have "\<dots> = toHexString ` agg_id ` set (group_by_productId ?rs)"
    by (simp add: image_image)
  also have "\<dots> = toHexString ` productId ` set ?rs"
    by (simp only: group_ids)
  finally have "dom (bulk_summary_data s productIds) = toHexString ` productId ` set ?rs" .
  moreover have "productId ` set ?rs
       = {pid \<in> toObjectId ` set (filter isValidObjectId (take 300 productIds)). approved_ratings s pid \<noteq> []}"
    by (auto simp: approved_ratings_def filter_empty_conv image_iff)
  ultimately show ?thesis by simp
qed

lemma isValidObjectId_ex: "isValidObjectId ex_pid" "isValidObjectId ex_rid"
  by (simp_all add: isValidObjectId_def ex_pid_def ex_rid_def isHexDigit_def)

subsection \<open>The write-back\<close>

lemma update_products_same:
  assumes "products s pid = Some p"
  shows "products (product_findByIdAndUpdate s pid
            [(''rating'', m), (''reviewsCount'', n), (''averageRating'', m), (''ratingsCount'', n)]) pid
         = Some (p\<lparr>p_rating := m, p_averageRating := m, p_ratingsCount := n\<rparr>)"
  using assms by (simp add: product_findByIdAndUpdate_def setPath_def)

lemma update_products_ctrl:
  assumes "products s pid = Some p"
  shows "products (product_findByIdAndUpdate s pid [(''rating'', m), (''reviewsCount'', n)]) pid
         = Some (p\<lparr>p_rating := m\<rparr>)"
  using assms by (simp add: product_findByIdAndUpdate_def setPath_def)

lemma update_products_other:
  "pid' \<noteq> pid \<Longrightarrow> products (product_findByIdAndUpdate s pid upd) pid' = products s pid'"
  by (simp add: product_findByIdAndUpdate_def split: option.splits)

text \<open>What \<open>recalcProductRating\<close> does, with the aggregate named.\<close>

lemma recalc_eq:
  "recalcProductRating s pid =
     (None, (product_findByIdAndUpdate s pid
                 [(''rating'', spec_mean (approved_ratings s pid)),
                  (''reviewsCount'', spec_count (approved_ratings s pid))])
             \<lparr>reviewCache := cache_del (reviewCache s) (''review-summary:'' @ toHexString pid)\<rparr>)"
  unfolding recalcProductRating_def Let_def agg_total agg_mean_ctrl
  by (simp add: product_findByIdAndUpdate_def split: option.splits)

subsection \<open>A read under another spelling\<close>

lemma wellFormedId_ex_PID: "wellFormedId ex_PID"
  by (simp add: wellFormedId_def ex_PID_def isHexDigit_def)

lemma isMongoId_ex_PID: "isMongoId ex_PID"
  by (rule wellFormedId_isMongoId [OF wellFormedId_ex_PID])

lemma toObjectId_ex_PID: "toObjectId ex_PID = ObjectId ex_pid"
  by (simp add: toObjectId_def ex_PID_def ex_pid_def toLowerCase_def)

lemma stale_step1:
  "get_summary 0 (ex_server Pending) ex_PID =
     (Response 200 (SuccessData False ex_zero_summary),
      ex_cached Pending)"
proof -
  have a: "approved_ratings (ex_server Pending) (ObjectId ex_pid) = []"
    by (simp add: approved_ratings_def ex_server_def ex_review_def)
  have c: "cache_get (reviewCache (ex_server Pending)) 0 (''review-summary:'' @ ex_PID) = (None, Map.empty)"
    by (simp add: cache_get_def ex_server_def)
  have u: "product_findByIdAndUpdate (ex_server Pending) (ObjectId ex_pid)
             [(''rating'', 0), (''reviewsCount'', 0), (''averageRating'', 0), (''ratingsCount'', 0)]
           = ex_server Pending"
    by (simp add: product_findByIdAndUpdate_def ex_server_def setPath_def ex_product_def)
  show ?thesis
    unfolding get_summary_eq [OF wellFormedId_ex_PID] toObjectId_ex_PID a c
    by (simp add: spec_mean_def spec_count_def u cache_set_def ex_zero_summary_def ex_cached_def)
qed

lemma stale_step2: "patch_approve (ex_cached Pending) ex_rid = (Response 200 Success, ex_stale)"
proof -
  have a: "approved_ratings (ex_cached Approved) (ObjectId ex_pid) = [5]"
    by (simp add: approved_ratings_def ex_review_def ex_cached_def ex_server_def)
  have v: "spec_mean [5] = 5" "spec_count [5] = 1"
    by (simp_all add: spec_mean_def spec_count_def round1_def floor_eq_iff)
  have r: "snd (recomputeProductStats (ex_cached Approved) ex_pid) = ex_stale"
    unfolding recompute_eq toObjectId_ex_pid a v snd_conv
    by (auto simp: product_findByIdAndUpdate_def setPath_def cache_del_def ex_stale_def
        ex_cached_def ex_server_def fun_eq_iff ex_pid_def ex_PID_def)
  have u: "(ex_cached Pending)\<lparr>reviews := updateFirst (toObjectId ex_rid) (\<lambda>r. r\<lparr>status := Approved\<rparr>)
                                              (reviews (ex_cached Pending))\<rparr> = ex_cached Approved"
    by (simp add: toObjectId_ex_rid ex_review_def ex_cached_def ex_server_def)
  have f: "findById (reviews (ex_cached Approved)) (toObjectId ex_rid) = Some (ex_review Approved)"
    by (simp add: findById_def toObjectId_ex_rid ex_review_def ex_cached_def ex_server_def)
  have h: "toHexString (productId (ex_review Approved)) = ex_pid"
    by (simp add: ex_review_def)
  show ?thesis
    by (simp only: patch_approve_def Let_def isMongoId_ex_rid wellFormedId_ex_rid not_True_eq_False if_False u f
        option.case h r)
qed

lemma stale_step3:
  "get_summary 1000 ex_stale ex_PID = (Response 200 (SuccessData True ex_zero_summary), ex_stale)"
proof -
  have c: "cache_get (reviewCache ex_stale) 1000 (''review-summary:'' @ ex_PID)
             = (Some ex_zero_summary, reviewCache ex_stale)"
    by (simp add: cache_get_def ex_stale_def)
  show ?thesis
    unfolding get_summary_eq [OF wellFormedId_ex_PID] c by simp
qed

lemma toLowerCase_idem: "toLowerCase (toLowerCase c) = toLowerCase c"
  by (simp add: toLowerCase_def)

lemma toObjectId_idem: "toObjectId (toHexString (toObjectId ident)) = toObjectId ident"
  by (simp add: toObjectId_def toLowerCase_idem)

text \<open>
  A read under the spelling \<open>recomputeProductStats\<close> was called with misses the cache and
  gives the aggregate of the state at hand.
\<close>

lemma summary_fresh_after_recompute:
  assumes "wellFormedId productId'"
  shows "fst (get_summary now (snd (recomputeProductStats s productId')) productId')
     = Response 200 (SuccessData False
         (JObj [(''avg'', JNum (spec_mean (approved_ratings s (toObjectId productId')))),
                (''total'', JNum (spec_count (approved_ratings s (toObjectId productId')))),
                (''averageRating'', JNum (spec_mean (approved_ratings s (toObjectId productId')))),
                (''reviewCount'', JNum (spec_count (approved_ratings s (toObjectId productId'))))]))"
proof -
  let ?s' = "snd (recomputeProductStats s productId')"
  have c: "fst (cache_get (reviewCache ?s') now (''review-summary:'' @ productId')) = None"
    by (simp add: recompute_eq cache_get_def cache_del_def)
  have a: "approved_ratings ?s' pid = approved_ratings s pid" for pid
    by (simp add: recompute_eq approved_ratings_def)
  show ?thesis
    unfolding get_summary_eq [OF assms] c by (simp add: a)
qed

subsection \<open>The client's bulk summary\<close>







subsection \<open>The aggregate along a sequence of requests\<close>

lemma canonical_toObjectId: "canonical (toObjectId x)"
  by (simp add: canonical_def toObjectId_idem)

lemma current_cong:
  "approved_ratings s' pid = approved_ratings s pid \<Longrightarrow> current s' pid p = current s pid p"
  by (simp add: current_def)

text \<open>Writing the aggregate of one product keeps the others and makes that one current.\<close>

lemma write_back_current:
  assumes others: "\<forall>pid' p. pid' \<noteq> pid \<longrightarrow> products s pid' = Some p \<longrightarrow> current s pid' p"
    and s': "products s' = products (product_findByIdAndUpdate s pid
                 [(''rating'', spec_mean (approved_ratings s pid)),
                  (''reviewsCount'', spec_count (approved_ratings s pid)),
                  (''averageRating'', spec_mean (approved_ratings s pid)),
                  (''ratingsCount'', spec_count (approved_ratings s pid))])"
    and r: "reviews s' = reviews s"
  shows "\<forall>pid' p. products s' pid' = Some p \<longrightarrow> current s' pid' p"
proof (intro allI impI)
  fix pid' p
  assume p: "products s' pid' = Some p"
  have a: "approved_ratings s' q = approved_ratings s q" for q
    by (simp add: approved_ratings_def r)
  show "current s' pid' p"
  proof (cases "pid' = pid")
    case True
    then obtain p0 where p0: "products s pid = Some p0"
      using p s' by (auto simp: product_findByIdAndUpdate_def split: option.splits)
    from p show ?thesis
      unfolding s' True update_products_same [OF p0]
      by (auto simp: current_def a)
  next
    case False
    with p have "products s pid' = Some p"
      by (simp add: s' update_products_other)
    with others False show ?thesis
      by (simp add: current_cong [OF a])
  qed
qed

lemma recompute_current:
  assumes "\<forall>r\<in>set (reviews s). canonical (productId r)"
    and "\<forall>pid' p. pid' \<noteq> toObjectId productId' \<longrightarrow> products s pid' = Some p \<longrightarrow> current s pid' p"
  shows "aggregates_current (snd (recomputeProductStats s productId'))"
  unfolding aggregates_current_def
proof
  show "\<forall>r\<in>set (reviews (snd (recomputeProductStats s productId'))). canonical (productId r)"
    using assms(1) by (simp add: recompute_eq)
  show "\<forall>pid p. products (snd (recomputeProductStats s productId')) pid = Some p \<longrightarrow>
          current (snd (recomputeProductStats s productId')) pid p"
    by (rule write_back_current [OF assms(2)]) (simp_all add: recompute_eq)
qed

lemma aggregates_current_reviews_products:
  "reviews s' = reviews s \<Longrightarrow> products s' = products s \<Longrightarrow> aggregates_current s' = aggregates_current s"
  by (simp add: aggregates_current_def current_def approved_ratings_def)

lemma aggregates_current_cong:
  assumes "\<And>q. approved_ratings s' q = approved_ratings s q"
    and "productId ` set (reviews s') = productId ` set (reviews s)"
    and "products s' = products s"
  shows "aggregates_current s' = aggregates_current s"
proof -
  have "(\<forall>r\<in>set (reviews s'). canonical (productId r)) = (\<forall>r\<in>set (reviews s). canonical (productId r))"
    using assms(2) by (metis (no_types, lifting) image_iff)
  then show ?thesis
    by (simp add: aggregates_current_def current_def assms(1) assms(3))
qed

lemma post_review_state:
  "snd (post_review isEmail autoPublish newId s req) = s \<or>
   (\<exists>created. productId created = toObjectId (req_productId req) \<and>
      status created = (if autoPublish then Approved else Pending) \<and>
      snd (post_review isEmail autoPublish newId s req) =
        (if autoPublish
         then snd (recomputeProductStats (s\<lparr>reviews := reviews s @ [created]\<rparr>)
                    (toHexString (toObjectId (req_productId req))))
         else s\<lparr>reviews := reviews s @ [created]\<rparr>))"
proof (cases "validationResult isEmail req = []")
  case False
  then show ?thesis by (simp add: post_review_def Let_def)
next
  case True
  show ?thesis
  proof (cases "wellFormedId (req_productId req)")
    case False
    with True show ?thesis by (simp add: post_review_def Let_def)
  next
    case wf: True
  show ?thesis
  proof (cases "products s (toObjectId (req_productId req))")
    case None
    with True wf show ?thesis by (simp add: post_review_def Let_def)
  next
    case (Some found)
    let ?created = "\<lparr>rid = newId, productId = toObjectId (req_productId req),
                      rating = (case req_rating req of Some x \<Rightarrow> x | None \<Rightarrow> 0),
                      title = (if trim (orEmpty (req_title req)) = [] then None
                               else Some (trim (orEmpty (req_title req)))),
                      comment = trim (orEmpty (req_comment req)),
                      status = (if autoPublish then Approved else Pending),
                      helpful = 0, verified = False\<rparr>"
    have "snd (post_review isEmail autoPublish newId s req) =
        (if autoPublish
         then snd (recomputeProductStats (s\<lparr>reviews := reviews s @ [?created]\<rparr>)
                    (toHexString (toObjectId (req_productId req))))
         else s\<lparr>reviews := reviews s @ [?created]\<rparr>)"
      using True wf Some by (simp add: post_review_def Let_def)
    moreover have "productId ?created = toObjectId (req_productId req)"
      and "status ?created = (if autoPublish then Approved else Pending)"
      by simp_all
    ultimately show ?thesis by blast
  qed
  qed
qed

lemma post_review_current:
  assumes "aggregates_current s"
  shows "aggregates_current (snd (post_review isEmail autoPublish newId s req))"
proof -
  let ?pid = "toObjectId (req_productId req)"
  from post_review_state [of isEmail autoPublish newId s req]
  show ?thesis
  proof (elim disjE exE conjE)
    assume "snd (post_review isEmail autoPublish newId s req) = s"
    with assms show ?thesis by simp
  next
    fix created
    assume c: "productId created = ?pid" "status created = (if autoPublish then Approved else Pending)"
      and e: "snd (post_review isEmail autoPublish newId s req) =
        (if autoPublish
         then snd (recomputeProductStats (s\<lparr>reviews := reviews s @ [created]\<rparr>) (toHexString ?pid))
         else s\<lparr>reviews := reviews s @ [created]\<rparr>)"
    let ?s1 = "s\<lparr>reviews := reviews s @ [created]\<rparr>"
    have can: "\<forall>r\<in>set (reviews ?s1). canonical (productId r)"
      using assms c(1) by (auto simp: aggregates_current_def canonical_toObjectId)
    show ?thesis
    proof (cases autoPublish)
      case True
      have o: "\<forall>pid' p. pid' \<noteq> toObjectId (toHexString ?pid) \<longrightarrow> products ?s1 pid' = Some p
                 \<longrightarrow> current ?s1 pid' p"
      proof (intro allI impI)
        fix pid' p
        assume n: "pid' \<noteq> toObjectId (toHexString ?pid)" and p: "products ?s1 pid' = Some p"
        from n have n': "pid' \<noteq> ?pid" by (simp add: toObjectId_idem)
        have "approved_ratings ?s1 pid' = approved_ratings s pid'"
          using n' c(1) by (auto simp: approved_ratings_def)
        moreover have "current s pid' p"
          using assms p by (simp add: aggregates_current_def)
        ultimately show "current ?s1 pid' p"
          by (simp add: current_def)
      qed
      from recompute_current [OF can o] e True show ?thesis by simp
    next
      case False
      have a: "approved_ratings ?s1 q = approved_ratings s q" for q
        using c(2) False by (simp add: approved_ratings_def)
      have "aggregates_current ?s1"
        unfolding aggregates_current_def
        using can assms by (auto simp: aggregates_current_def current_def a)
      with e False show ?thesis by simp
    qed
  qed
qed

lemma updateFirst_find:
  assumes "\<forall>r. rid (f r) = rid r"
  shows "find (\<lambda>r. rid r = k) (updateFirst k f rs) = map_option f (find (\<lambda>r. rid r = k) rs)"
  using assms by (induction rs) auto

lemma updateFirst_other:
  assumes "\<forall>r. productId (f r) = productId r \<and> rating (f r) = rating r"
    and "find (\<lambda>r. rid r = k) rs = Some r0" and "pid' \<noteq> productId r0"
  shows "map rating (filter (\<lambda>r. productId r = pid' \<and> status r = Approved) (updateFirst k f rs))
         = map rating (filter (\<lambda>r. productId r = pid' \<and> status r = Approved) rs)"
  using assms by (induction rs) (auto split: if_splits)

lemma updateFirst_same:
  assumes "\<forall>r. productId (f r) = productId r \<and> rating (f r) = rating r \<and> status (f r) = status r"
  shows "map rating (filter (\<lambda>r. productId r = pid' \<and> status r = Approved) (updateFirst k f rs))
         = map rating (filter (\<lambda>r. productId r = pid' \<and> status r = Approved) rs)"
  using assms by (induction rs) auto

lemma updateFirst_productIds:
  assumes "\<forall>r. productId (f r) = productId r"
  shows "productId ` set (updateFirst k f rs) = productId ` set rs"
  using assms by (induction rs) auto

lemma patch_approve_current:
  assumes "aggregates_current s"
  shows "aggregates_current (snd (patch_approve s ident))"
proof (cases "wellFormedId ident")
  case False
  with assms show ?thesis by (simp add: patch_approve_def)
next
  case True
  note mongo = wellFormedId_isMongoId [OF True]
  let ?k = "toObjectId ident"
  let ?f = "\<lambda>r. r\<lparr>status := Approved\<rparr>"
  let ?s1 = "s\<lparr>reviews := updateFirst ?k ?f (reviews s)\<rparr>"
  have fk: "findById (reviews ?s1) ?k = map_option ?f (find (\<lambda>r. rid r = ?k) (reviews s))"
    by (simp add: findById_def updateFirst_find)
  show ?thesis
  proof (cases "find (\<lambda>r. rid r = ?k) (reviews s)")
    case None
    then have u: "updateFirst ?k ?f (reviews s) = reviews s"
      by (rule updateFirst_absent)
    have "snd (patch_approve s ident) = s"
      unfolding patch_approve_def Let_def u findById_def
      using True mongo None by simp
    with assms show ?thesis by simp
  next
    case (Some r0)
    then have e: "snd (patch_approve s ident) = snd (recomputeProductStats ?s1 (toHexString (productId r0)))"
      using fk True mongo by (simp add: patch_approve_def Let_def)
    have r0: "r0 \<in> set (reviews s)"
      using Some by (auto simp: find_Some_iff in_set_conv_nth)
    have pr: "productId ` set (reviews ?s1) = productId ` set (reviews s)"
      by (simp add: updateFirst_productIds)
    have can: "\<forall>r\<in>set (reviews ?s1). canonical (productId r)"
    proof
      fix r assume "r \<in> set (reviews ?s1)"
      then have "productId r \<in> productId ` set (reviews s)"
        using pr by blast
      with assms show "canonical (productId r)"
        by (auto simp: aggregates_current_def)
    qed
    have c0: "toObjectId (toHexString (productId r0)) = productId r0"
      using assms r0 by (auto simp: aggregates_current_def canonical_def)
    have o: "\<forall>pid' p. pid' \<noteq> toObjectId (toHexString (productId r0)) \<longrightarrow> products ?s1 pid' = Some p
               \<longrightarrow> current ?s1 pid' p"
    proof (intro allI impI)
      fix pid' p
      assume n: "pid' \<noteq> toObjectId (toHexString (productId r0))" and p: "products ?s1 pid' = Some p"
      from n c0 have n': "pid' \<noteq> productId r0" by simp
      have "approved_ratings ?s1 pid' = approved_ratings s pid'"
        unfolding approved_ratings_def
        using updateFirst_other [of ?f ?k "reviews s" r0 pid'] Some n' by simp
      moreover have "current s pid' p"
        using assms p by (simp add: aggregates_current_def)
      ultimately show "current ?s1 pid' p"
        by (simp add: current_def)
    qed
    from recompute_current [OF can o] e show ?thesis by simp
  qed
qed

lemma post_helpful_current:
  assumes "aggregates_current s"
  shows "aggregates_current (snd (post_helpful s ident))"
proof (cases "wellFormedId ident")
  case False
  with assms show ?thesis by (simp add: post_helpful_def)
next
  case True
  note mongo = wellFormedId_isMongoId [OF True]
  let ?f = "\<lambda>r. r\<lparr>helpful := helpful r + 1\<rparr>"
  let ?s1 = "s\<lparr>reviews := updateFirst (toObjectId ident) ?f (reviews s)\<rparr>"
  have a: "approved_ratings ?s1 q = approved_ratings s q" for q
    unfolding approved_ratings_def
    using updateFirst_same [of ?f q "toObjectId ident" "reviews s"] by simp
  have pr: "productId ` set (reviews ?s1) = productId ` set (reviews s)"
    by (simp add: updateFirst_productIds)
  have "aggregates_current ?s1 = aggregates_current s"
    by (rule aggregates_current_cong [OF a pr]) simp
  with assms have "aggregates_current ?s1" by simp
  moreover have "snd (post_helpful s ident) = ?s1"
    using True mongo by (simp add: post_helpful_def)
  ultimately show ?thesis by simp
qed

lemma get_summary_state:
  assumes "wellFormedId productId'"
  shows "reviews (snd (get_summary now s productId')) = reviews s \<and>
         (products (snd (get_summary now s productId')) = products s \<or>
          products (snd (get_summary now s productId')) =
            products (product_findByIdAndUpdate s (toObjectId productId')
                 [(''rating'', spec_mean (approved_ratings s (toObjectId productId'))),
                  (''reviewsCount'', spec_count (approved_ratings s (toObjectId productId'))),
                  (''averageRating'', spec_mean (approved_ratings s (toObjectId productId'))),
                  (''ratingsCount'', spec_count (approved_ratings s (toObjectId productId')))]))"
  by (cases "fst (cache_get (reviewCache s) now (''review-summary:'' @ productId'))")
     (simp_all add: get_summary_eq [OF assms])

lemma get_summary_current:
  assumes "aggregates_current s"
  shows "aggregates_current (snd (get_summary now s productId'))"
proof (cases "wellFormedId productId'")
  case False
  note ill = get_summary_ill [OF False, of now s]
  from aggregates_current_reviews_products [OF ill [THEN conjunct1] ill [THEN conjunct2, THEN conjunct1]]
    assms show ?thesis by simp
next
  case True
  let ?s' = "snd (get_summary now s productId')"
  note st = get_summary_state [OF True, of now s]
  have r: "reviews ?s' = reviews s"
    using st by blast
  from st show ?thesis
  proof (elim conjE disjE)
    assume "products ?s' = products s"
    from aggregates_current_reviews_products [OF r this] assms show ?thesis
      by simp
  next
    assume p: "products ?s' = products (product_findByIdAndUpdate s (toObjectId productId')
                 [(''rating'', spec_mean (approved_ratings s (toObjectId productId'))),
                  (''reviewsCount'', spec_count (approved_ratings s (toObjectId productId'))),
                  (''averageRating'', spec_mean (approved_ratings s (toObjectId productId'))),
                  (''ratingsCount'', spec_count (approved_ratings s (toObjectId productId')))])"
    have o: "\<forall>pid' p. pid' \<noteq> toObjectId productId' \<longrightarrow> products s pid' = Some p \<longrightarrow> current s pid' p"
      using assms by (simp add: aggregates_current_def)
    show ?thesis
      unfolding aggregates_current_def
    proof
      show "\<forall>r\<in>set (reviews ?s'). canonical (productId r)"
        using assms r by (simp add: aggregates_current_def)
      show "\<forall>pid p. products ?s' pid = Some p \<longrightarrow> current ?s' pid p"
        by (rule write_back_current [OF o p r])
    qed
  qed
qed

lemma handle_current:
  "aggregates_current s \<Longrightarrow> aggregates_current (handle isEmail autoPublish s rq)"
  by (cases rq)
     (simp_all add: post_review_current patch_approve_current post_helpful_current get_summary_current)

lemma aggregates_current_run:
  "aggregates_current s \<Longrightarrow> aggregates_current (foldl (handle isEmail autoPublish) s rqs)"
  by (induction rqs arbitrary: s) (simp_all add: handle_current)

lemma aggregates_current_ex: "aggregates_current (ex_server Pending)"
  by (simp add: aggregates_current_def canonical_def current_def ex_server_def ex_review_def
      approved_ratings_def spec_mean_def spec_count_def ex_product_def toObjectId_ex_pid)

section \<open>The claims\<close>

text \<open>
  C1, as the code has it. In every state, and for every well-formed identifier of a
  product: \<open>recomputeProductStats\<close> writes the mean of the ratings of the product's approved
  reviews, rounded to one decimal (0 when there are none), onto \<open>rating\<close> and
  \<open>averageRating\<close> and their count onto \<open>ratingsCount\<close>; \<open>recalcProductRating\<close> writes
  that mean onto \<open>rating\<close>. Neither returns a value. And along every sequence of review
  creations, approvals, helpful votes and summary reads of \<open>routes/reviews.public.ts\<close>
  the aggregate stays current: if every product carries the aggregate of its approved
  reviews before the sequence, every product carries it after.
\<close>

theorem recompute_writes_aggregate:
  assumes "wellFormedId productId'" and "products s (toObjectId productId') = Some p"
  shows "fst (recomputeProductStats s productId') = None \<and>
         map_option p_rating (products (snd (recomputeProductStats s productId')) (toObjectId productId'))
           = Some (spec_mean (approved_ratings s (toObjectId productId'))) \<and>
         map_option p_averageRating (products (snd (recomputeProductStats s productId')) (toObjectId productId'))
           = Some (spec_mean (approved_ratings s (toObjectId productId'))) \<and>
         map_option p_ratingsCount (products (snd (recomputeProductStats s productId')) (toObjectId productId'))
           = Some (spec_count (approved_ratings s (toObjectId productId'))) \<and>
         fst (recalcProductRating s (toObjectId productId')) = None \<and>
         map_option p_rating (products (snd (recalcProductRating s (toObjectId productId'))) (toObjectId productId'))
           = Some (spec_mean (approved_ratings s (toObjectId productId'))) \<and>
         spec_mean [] = 0 \<and> spec_count [] = 0 \<and>
         (aggregates_current s \<longrightarrow> aggregates_current (foldl (handle isEmail autoPublish) s rqs))"
  using assms(2) aggregates_current_run [of s isEmail autoPublish rqs]
  by (simp add: recompute_eq recalc_eq update_products_same update_products_ctrl
      spec_mean_def spec_count_def)

theorem recompute_writes_aggregate_witness:
  "map_option p_rating (products (snd (recomputeProductStats (ex_server Approved) ex_pid)) (ObjectId ex_pid)) = Some 5 \<and>
   map_option p_averageRating (products (snd (recomputeProductStats (ex_server Approved) ex_pid)) (ObjectId ex_pid)) = Some 5 \<and>
   map_option p_ratingsCount (products (snd (recomputeProductStats (ex_server Approved) ex_pid)) (ObjectId ex_pid)) = Some 1 \<and>
   map_option p_rating (products (snd (recalcProductRating (ex_server Approved) (ObjectId ex_pid))) (ObjectId ex_pid)) = Some 5 \<and>
   map_option p_rating (products (snd (recomputeProductStats (ex_server Pending) ex_pid)) (ObjectId ex_pid)) = Some 0 \<and>
   map_option p_ratingsCount (products (snd (recomputeProductStats (ex_server Pending) ex_pid)) (ObjectId ex_pid)) = Some 0 \<and>
   aggregates_current (foldl (handle (\<lambda>e. True) False) (ex_server Pending)
     [PostReview (ex_request 4 ''does the job'') (ObjectId ex_pid), Approve ex_rid, Summary 0 ex_pid, Approve ex_pid])"
proof -
  have p: "products (ex_server st) (toObjectId ex_pid) = Some ex_product" for st
    by (simp add: ex_server_def toObjectId_ex_pid)
  have a: "approved_ratings (ex_server Approved) (ObjectId ex_pid) = [5]"
    by (simp add: approved_ratings_def ex_server_def ex_review_def)
  have b: "approved_ratings (ex_server Pending) (ObjectId ex_pid) = []"
    by (simp add: approved_ratings_def ex_server_def ex_review_def)
  have v: "spec_mean [5] = 5" "spec_count [5] = 1" "spec_mean [] = 0" "spec_count [] = 0"
    by (simp_all add: spec_mean_def spec_count_def round1_def floor_eq_iff)
  note w1 = recompute_writes_aggregate [OF wellFormedId_ex_pid p [of Approved], unfolded toObjectId_ex_pid a v]
  note w2 = recompute_writes_aggregate [OF wellFormedId_ex_pid p [of Pending], unfolded toObjectId_ex_pid b v,
              where isEmail = "\<lambda>e. True" and autoPublish = False
                and rqs = "[PostReview (ex_request 4 ''does the job'') (ObjectId ex_pid), Approve ex_rid,
                            Summary 0 ex_pid, Approve ex_pid]"]
  from w1 w2 aggregates_current_ex show ?thesis by blast
qed

text \<open>
  C1 as stated fails: with one approved review of rating 5 neither function returns the
  pair (5, 1), and \<open>recalcProductRating\<close> leaves the product's \<open>reviews\<close> and \<open>ratingsCount\<close>
  at 0.
\<close>

theorem recompute_writes_aggregate_counterexample:
  "approved_ratings (ex_server Approved) (toObjectId ex_pid) = [5] \<and>
   fst (recomputeProductStats (ex_server Approved) ex_pid) = None \<and>
   fst (recalcProductRating (ex_server Approved) (toObjectId ex_pid)) = None \<and>
   map_option p_reviews
     (products (snd (recalcProductRating (ex_server Approved) (toObjectId ex_pid))) (toObjectId ex_pid)) = Some 0 \<and>
   map_option p_ratingsCount
     (products (snd (recalcProductRating (ex_server Approved) (toObjectId ex_pid))) (toObjectId ex_pid)) = Some 0"
proof -
  have p: "products (ex_server Approved) (ObjectId ex_pid) = Some ex_product"
    by (simp add: ex_server_def)
  have a: "approved_ratings (ex_server Approved) (ObjectId ex_pid) = [5]"
    by (simp add: approved_ratings_def ex_server_def ex_review_def)
  show ?thesis
    by (simp add: recompute_eq recalc_eq toObjectId_ex_pid update_products_ctrl [OF p] a ex_product_def)
qed

text \<open>
  C2 at the failing input, a product with default aggregates and one approved review of
  rating 5. After \<open>recomputeProductStats\<close> the product has \<open>reviews = 0\<close> and
  \<open>ratingsCount = 1\<close>; after \<open>recalcProductRating\<close> it has \<open>rating = 5\<close> and
  \<open>averageRating = 0\<close>.
\<close>

theorem legacy_pairs_diverge:
  "map_option p_reviews (products (snd (recomputeProductStats (ex_server Approved) ex_pid)) (ObjectId ex_pid)) = Some 0 \<and>
   map_option p_ratingsCount (products (snd (recomputeProductStats (ex_server Approved) ex_pid)) (ObjectId ex_pid)) = Some 1 \<and>
   map_option p_rating (products (snd (recalcProductRating (ex_server Approved) (ObjectId ex_pid))) (ObjectId ex_pid)) = Some 5 \<and>
   map_option p_averageRating (products (snd (recalcProductRating (ex_server Approved) (ObjectId ex_pid))) (ObjectId ex_pid)) = Some 0"
proof -
  have p: "products (ex_server Approved) (ObjectId ex_pid) = Some ex_product"
    by (simp add: ex_server_def)
  have a: "approved_ratings (ex_server Approved) (ObjectId ex_pid) = [5]"
    by (simp add: approved_ratings_def ex_server_def ex_review_def)
  have v: "spec_mean [5] = 5" "spec_count [5] = 1"
    by (simp_all add: spec_mean_def spec_count_def round1_def floor_eq_iff)
  show ?thesis
    by (simp add: recompute_eq recalc_eq toObjectId_ex_pid update_products_same [OF p]
        update_products_ctrl [OF p] a v ex_product_def)
qed

text \<open>
  C3 at the failing input. The product is read under the upper-case spelling of its
  identifier at time 0, when its only review is pending: the summary of no reviews is
  cached under that spelling. The review is then approved; \<open>recomputeProductStats\<close> is
  called with \<open>String(doc.productId)\<close>, the lower-case spelling, and deletes the key of that
  spelling. A second read under the upper-case spelling one second later is served from
  the cache: \<open>total\<close> is 0 although the product now has one approved review.
\<close>

theorem stale_summary_after_approve:
  "fst (patch_approve (snd (get_summary 0 (ex_server Pending) ex_PID)) ex_rid) = Response 200 Success \<and>
   approved_ratings (snd (patch_approve (snd (get_summary 0 (ex_server Pending) ex_PID)) ex_rid))
     (toObjectId ex_PID) = [5] \<and>
   fst (get_summary 1000 (snd (patch_approve (snd (get_summary 0 (ex_server Pending) ex_PID)) ex_rid)) ex_PID)
     = Response 200 (SuccessData True ex_zero_summary) \<and>
   summary_field (Response 200 (SuccessData True ex_zero_summary)) ''total'' = Some (JNum 0)"
proof -
  have s2: "patch_approve (snd (get_summary 0 (ex_server Pending) ex_PID)) ex_rid
              = (Response 200 Success, ex_stale)"
    unfolding stale_step1 snd_conv by (rule stale_step2)
  have a: "approved_ratings ex_stale (toObjectId ex_PID) = [5]"
    by (simp add: toObjectId_ex_PID approved_ratings_def ex_stale_def ex_review_def)
  have f: "summary_field (Response 200 (SuccessData True ex_zero_summary)) ''total'' = Some (JNum 0)"
    by (simp add: summary_field_def ex_zero_summary_def field_def)
  show ?thesis
    unfolding s2 snd_conv fst_conv stale_step3 a f by simp
qed




text \<open>
  C5, as the code has it. A client cache entry written at time \<open>t\<close> with time-to-live \<open>ttl\<close>
  is returned by every read up to and including time \<open>t + ttl\<close>; a read after \<open>t + ttl\<close>
  finds it absent and removes it. The server cache (60 s) behaves the same way. The
  entry is still served at the instant \<open>t + ttl\<close> itself, since \<open>readCache\<close> tests
  \<open>Date.now() > hit.expires\<close>.
\<close>

theorem cache_ttl_boundary:
  "(now \<le> t + ttl \<longrightarrow>
      readCache (writeCache m t key v ttl) now key = (Some v, writeCache m t key v ttl)) \<and>
   (now > t + ttl \<longrightarrow>
      readCache (writeCache m t key v ttl) now key = (None, (writeCache m t key v ttl)(key := None))) \<and>
   (now' \<le> t' + 60000 \<longrightarrow>
      cache_get (cache_set c t' key' j) now' key' = (Some j, cache_set c t' key' j)) \<and>
   (now' > t' + 60000 \<longrightarrow>
      cache_get (cache_set c t' key' j) now' key' = (None, (cache_set c t' key' j)(key' := None)))"
  by (simp add: readCache_def writeCache_def cache_get_def cache_set_def)

theorem cache_ttl_boundary_witness:
  "fst (readCache (writeCache Map.empty 1000 ex_pid \<lparr>averageRating = 4, reviewCount = 3\<rparr> 30000) 31000 ex_pid)
     = Some \<lparr>averageRating = 4, reviewCount = 3\<rparr> \<and>
   fst (readCache (writeCache Map.empty 1000 ex_pid \<lparr>averageRating = 4, reviewCount = 3\<rparr> 30000) 31001 ex_pid)
     = None \<and>
   fst (cache_get (cache_set Map.empty 1000 ex_pid (JNum 4)) 61000 ex_pid) = Some (JNum 4) \<and>
   fst (cache_get (cache_set Map.empty 1000 ex_pid (JNum 4)) 61001 ex_pid) = None"
  using cache_ttl_boundary [of 31000 1000 30000 Map.empty ex_pid "\<lparr>averageRating = 4, reviewCount = 3\<rparr>"
          61000 1000 Map.empty ex_pid "JNum 4"]
        cache_ttl_boundary [of 31001 1000 30000 Map.empty ex_pid "\<lparr>averageRating = 4, reviewCount = 3\<rparr>"
          61001 1000 Map.empty ex_pid "JNum 4"]
  by simp

text \<open>
  C5 as stated fails at the boundary: an entry written at time 1000 with the default
  time-to-live is still returned by a read at time \<open>1000 + DEFAULT_TTL\<close>.
\<close>

theorem cache_ttl_boundary_counterexample:
  "fst (readCache (writeCache Map.empty 1000 ex_pid \<lparr>averageRating = 4, reviewCount = 3\<rparr> DEFAULT_TTL)
         (1000 + DEFAULT_TTL) ex_pid) = Some \<lparr>averageRating = 4, reviewCount = 3\<rparr>"
  by (simp add: readCache_def writeCache_def DEFAULT_TTL_def)

text \<open>
  C6, as the code has it. With the other fields valid and the product present, both
  handlers reject rating 0 and rating 6 with status 400 and accept rating 1 and rating 5.
  The routes handler rejects a comment of length 4 or 4001 and accepts one of length 5 or
  4000; the controller does the same for the length of the comment after \<open>trim()\<close>, which
  strips white space, the no-break space included, from both ends.
\<close>

theorem rating_and_comment_bounds:
  assumes "wellFormedId (req_productId req)"
    and "products s (toObjectId (req_productId req)) = Some p"
    and "case req_title req of None \<Rightarrow> True | Some t \<Rightarrow> length t \<le> 120"
    and "case req_userEmail req of None \<Rightarrow> True | Some e \<Rightarrow> isEmail e"
  shows "route_code isEmail autoPublish newId s req 0 c = 400 \<and>
         route_code isEmail autoPublish newId s req 6 c = 400 \<and>
         (length c = 4 \<or> length c = 4001 \<longrightarrow> route_code isEmail autoPublish newId s req r c = 400) \<and>
         (length c = 5 \<or> length c = 4000 \<longrightarrow>
            route_code isEmail autoPublish newId s req 1 c = 201 \<and>
            route_code isEmail autoPublish newId s req 5 c = 201) \<and>
         controller_code autoApprove newId s req 0 c = 400 \<and>
         controller_code autoApprove newId s req 6 c = 400 \<and>
         (length (trim c) = 4 \<or> length (trim c) = 4001 \<longrightarrow>
            controller_code autoApprove newId s req r c = 400) \<and>
         (length (trim c) = 5 \<or> length (trim c) = 4000 \<longrightarrow>
            controller_code autoApprove newId s req 1 c = 201 \<and>
            controller_code autoApprove newId s req 5 c = 201)"
proof -
  have v: "isValidObjectId (req_productId req)"
    using assms(1) by (simp add: isValidObjectId_def wellFormedId_def)
  show ?thesis
    unfolding route_code_eq [OF assms] controller_code_eq [OF v]
    by (auto simp: isInt_def)
qed

theorem rating_and_comment_bounds_witness:
  "route_code (\<lambda>e. True) True (ObjectId ex_rid) (ex_server Approved) (ex_request 3 []) 0 ''good'' = 400 \<and>
   route_code (\<lambda>e. True) True (ObjectId ex_rid) (ex_server Approved) (ex_request 3 []) 6 ''good'' = 400 \<and>
   route_code (\<lambda>e. True) True (ObjectId ex_rid) (ex_server Approved) (ex_request 3 []) 1 ''good'' = 400 \<and>
   route_code (\<lambda>e. True) True (ObjectId ex_rid) (ex_server Approved) (ex_request 3 []) 1 ''solid'' = 201 \<and>
   route_code (\<lambda>e. True) True (ObjectId ex_rid) (ex_server Approved) (ex_request 3 []) 5 ''solid'' = 201 \<and>
   controller_code True (ObjectId ex_rid) (ex_server Approved) (ex_request 3 []) 0 ''good'' = 400 \<and>
   controller_code True (ObjectId ex_rid) (ex_server Approved) (ex_request 3 []) 6 ''good'' = 400 \<and>
   controller_code True (ObjectId ex_rid) (ex_server Approved) (ex_request 3 []) 1 ''good'' = 400 \<and>
   controller_code True (ObjectId ex_rid) (ex_server Approved) (ex_request 3 []) 1 ''solid'' = 201 \<and>
   controller_code True (ObjectId ex_rid) (ex_server Approved) (ex_request 3 []) 5 ''solid'' = 201 \<and>
   controller_code True (ObjectId ex_rid) (ex_server Approved) (ex_request 3 []) 5 (CHR 0xA0 # ''abcd'') = 400"
proof -
  have a: "wellFormedId (req_productId (ex_request 3 []))"
    by (simp add: ex_request_def wellFormedId_ex_pid)
  have b: "products (ex_server Approved) (toObjectId (req_productId (ex_request 3 []))) = Some ex_product"
    by (simp add: ex_request_def toObjectId_ex_pid ex_server_def)
  have c: "case req_title (ex_request 3 []) of None \<Rightarrow> True | Some t \<Rightarrow> length t \<le> 120"
    by (simp add: ex_request_def)
  have d: "case req_userEmail (ex_request 3 []) of None \<Rightarrow> True | Some e \<Rightarrow> (\<lambda>e. True) e"
    by (simp add: ex_request_def)
  have t4: "length (trim ''good'') = 4" and t5: "length (trim ''solid'') = 5"
    and tn: "length (trim (CHR 0xA0 # ''abcd'')) = 4"
    by (simp_all add: trim_def isWhiteSpace_def)
  show ?thesis
    using rating_and_comment_bounds [OF a b c d, of True "ObjectId ex_rid" "''good''" 1 True]
          rating_and_comment_bounds [OF a b c d, of True "ObjectId ex_rid" "''solid''" 1 True]
          rating_and_comment_bounds [OF a b c d, of True "ObjectId ex_rid" "CHR 0xA0 # ''abcd''" 5 True]
          t4 t5 tn
    by simp
qed

text \<open>
  C6 as stated fails on the controller, which measures the trimmed comment: a comment of
  length 5 that is four spaces and a letter is rejected, and a comment of length 4001
  that ends in a space is accepted.
\<close>

theorem rating_and_comment_bounds_counterexample:
  "length ''    a'' = 5 \<and>
   controller_code True (ObjectId ex_rid) (ex_server Approved) (ex_request 3 []) 5 ''    a'' = 400 \<and>
   length (replicate 4000 (CHR ''a'') @ '' '') = 4001 \<and>
   controller_code True (ObjectId ex_rid) (ex_server Approved) (ex_request 3 [])
     5 (replicate 4000 (CHR ''a'') @ '' '') = 201"
proof -
  have v: "isValidObjectId (req_productId (ex_request 3 []))"
    by (simp add: ex_request_def isValidObjectId_def ex_pid_def isHexDigit_def)
  have t1: "trim ''    a'' = ''a''"
    by (simp add: trim_def isWhiteSpace_def)
  have "trim (replicate (Suc 3999) (CHR ''a'') @ '' '') = replicate (Suc 3999) (CHR ''a'')"
    by (rule trim_padded) (simp add: isWhiteSpace_def)
  then have t2: "trim (replicate 4000 (CHR ''a'') @ '' '') = replicate 4000 (CHR ''a'')"
    by simp
  show ?thesis
    unfolding controller_code_eq [OF v] t1 t2 by simp
qed

text \<open>
  C7. A review-creation request that fails validation is answered with status 400 and
  leaves the state as it was: no review is stored, no product is written, the cache is
  untouched. The routes handler fails a request whose identifier is not accepted by
  \<open>isMongoId\<close>, whose rating is not an integer from 1 to 5, or whose comment has a length
  outside 5 to 4000. The controller fails a request whose identifier is not accepted by
  \<open>isValidObjectId\<close> (identifiers of 12 characters, which some mongoose versions accept,
  are left aside), whose rating is missing or outside 1 to 5, or whose trimmed comment has
  a length outside 5 to 4000. An identifier that passes \<open>isMongoId\<close> without being
  well-formed passes validation and makes the routes handler answer 500. Whenever either
  handler answers anything but 201, the state is the one before the request.
\<close>

theorem invalid_create_leaves_state:
  "(\<not> isMongoId (req_productId req) \<or> \<not> isInt (req_rating req) 1 5 \<or> \<not> isLength (req_comment req) 5 4000
      \<longrightarrow> code (fst (post_review isEmail autoPublish newId s req)) = 400) \<and>
   (validationResult isEmail req = [] \<and> \<not> wellFormedId (req_productId req)
      \<longrightarrow> code (fst (post_review isEmail autoPublish newId s req)) = 500) \<and>
   (code (fst (post_review isEmail autoPublish newId s req)) \<noteq> 201
      \<longrightarrow> snd (post_review isEmail autoPublish newId s req) = s) \<and>
   (\<not> isValidObjectId (req_productId req) \<and> length (req_productId req) \<noteq> 12 \<or>
    (case req_rating req of None \<Rightarrow> True | Some r \<Rightarrow> r < 1 \<or> r > 5) \<or>
    length (trim (orEmpty (req_comment req))) < 5 \<or> length (trim (orEmpty (req_comment req))) > 4000
      \<longrightarrow> code (fst (createReview autoApprove newId s req)) = 400) \<and>
   (code (fst (createReview autoApprove newId s req)) \<noteq> 201
      \<longrightarrow> snd (createReview autoApprove newId s req) = s)"
proof -
  have r1: "\<not> isMongoId (req_productId req) \<or> \<not> isInt (req_rating req) 1 5 \<or> \<not> isLength (req_comment req) 5 4000
      \<Longrightarrow> code (fst (post_review isEmail autoPublish newId s req)) = 400"
    by (auto simp: post_review_def validationResult_def Let_def)
  have r2: "validationResult isEmail req = [] \<and> \<not> wellFormedId (req_productId req)
      \<Longrightarrow> code (fst (post_review isEmail autoPublish newId s req)) = 500"
    by (simp add: post_review_def Let_def)
  have r3: "code (fst (post_review isEmail autoPublish newId s req)) \<noteq> 201
      \<Longrightarrow> snd (post_review isEmail autoPublish newId s req) = s"
    by (simp add: post_review_def Let_def split: if_splits option.splits)
  have c1: "\<not> isValidObjectId (req_productId req) \<and> length (req_productId req) \<noteq> 12 \<or>
    (case req_rating req of None \<Rightarrow> True | Some r \<Rightarrow> r < 1 \<or> r > 5) \<or>
    length (trim (orEmpty (req_comment req))) < 5 \<or> length (trim (orEmpty (req_comment req))) > 4000
      \<Longrightarrow> code (fst (createReview autoApprove newId s req)) = 400"
    by (auto simp: createReview_def Let_def split: option.splits)
  have c2: "code (fst (createReview autoApprove newId s req)) \<noteq> 201
      \<Longrightarrow> snd (createReview autoApprove newId s req) = s"
    by (auto simp: createReview_def Let_def split: if_splits option.splits)
  from r1 r2 r3 c1 c2 show ?thesis by blast
qed

theorem invalid_create_leaves_state_witness:
  "code (fst (post_review (\<lambda>e. True) True (ObjectId ex_rid) (ex_server Approved) (ex_request 0 ''works well''))) = 400 \<and>
   snd (post_review (\<lambda>e. True) True (ObjectId ex_rid) (ex_server Approved) (ex_request 0 ''works well''))
     = ex_server Approved \<and>
   code (fst (createReview True (ObjectId ex_rid) (ex_server Approved) (ex_request 0 ''works well''))) = 400 \<and>
   snd (createReview True (ObjectId ex_rid) (ex_server Approved) (ex_request 0 ''works well''))
     = ex_server Approved \<and>
   code (fst (post_review (\<lambda>e. True) True (ObjectId ex_rid) (ex_server Approved) ex_xrequest)) = 500 \<and>
   snd (post_review (\<lambda>e. True) True (ObjectId ex_rid) (ex_server Approved) ex_xrequest) = ex_server Approved \<and>
   code (fst (createReview True (ObjectId ex_rid) (ex_server Approved) ex_xrequest)) = 400 \<and>
   snd (createReview True (ObjectId ex_rid) (ex_server Approved) ex_xrequest) = ex_server Approved"
proof -
  have v: "validationResult (\<lambda>e. True) ex_xrequest = []"
    by (simp add: validationResult_def ex_xrequest_def isMongoId_ex_xid isInt_def isLength_def)
  have w: "\<not> wellFormedId (req_productId ex_xrequest)"
    by (simp add: ex_xrequest_def not_wellFormedId_ex_xid)
  have i: "\<not> isValidObjectId (req_productId ex_xrequest) \<and> length (req_productId ex_xrequest) \<noteq> 12"
    by (simp add: ex_xrequest_def isValidObjectId_def ex_xid_def isHexDigit_def)
  have z: "\<not> isInt (req_rating (ex_request 0 ''works well'')) 1 5"
    and z': "case req_rating (ex_request 0 ''works well'') of None \<Rightarrow> True | Some r \<Rightarrow> r < 1 \<or> r > 5"
    by (simp_all add: ex_request_def isInt_def)
  note a = invalid_create_leaves_state [where req = "ex_request 0 ''works well''" and isEmail = "\<lambda>e. True"
             and autoPublish = True and newId = "ObjectId ex_rid" and s = "ex_server Approved"
             and autoApprove = True]
  note b = invalid_create_leaves_state [where req = ex_xrequest and isEmail = "\<lambda>e. True"
             and autoPublish = True and newId = "ObjectId ex_rid" and s = "ex_server Approved"
             and autoApprove = True]
  from a z z' b v w i show ?thesis by auto
qed

text \<open>
  C8, as the code has it. For a well-formed product identifier the summary read of
  \<open>routes/reviews.public.ts\<close> answers with a summary object in which \<open>averageRating\<close> and
  \<open>reviewCount\<close> carry the values of \<open>avg\<close> and \<open>total\<close>, from the cache as well as freshly
  computed; on a miss these are the rounded mean and the count of the approved reviews.
  The cache holds only such objects, a property every handler of the module keeps.
\<close>

theorem summary_both_spellings:
  assumes "wellFormedId productId'" and "cache_dual s"
  shows "(\<exists>j. summary_of (fst (get_summary now s productId')) = Some j \<and> dual_spelled j) \<and>
         (fst (cache_get (reviewCache s) now (''review-summary:'' @ productId')) = None \<longrightarrow>
            summary_field (fst (get_summary now s productId')) ''avg''
              = Some (JNum (spec_mean (approved_ratings s (toObjectId productId')))) \<and>
            summary_field (fst (get_summary now s productId')) ''total''
              = Some (JNum (spec_count (approved_ratings s (toObjectId productId'))))) \<and>
         cache_dual (snd (get_summary now s productId')) \<and>
         cache_dual (snd (post_review isEmail autoPublish newId s req)) \<and>
         cache_dual (snd (patch_approve s ident)) \<and>
         cache_dual (snd (post_helpful s ident))"
proof -
  let ?k = "''review-summary:'' @ productId'"
  have hit: "dual_spelled v" if "fst (cache_get (reviewCache s) now ?k) = Some v" for v
  proof -
    from that obtain t where "reviewCache s ?k = Some (v, t)"
      by (auto simp: cache_get_def split: option.splits if_splits)
    with assms(2) show ?thesis
      unfolding cache_dual_def by blast
  qed
  have 1: "\<exists>j. summary_of (fst (get_summary now s productId')) = Some j \<and> dual_spelled j"
    by (cases "fst (cache_get (reviewCache s) now ?k)")
       (simp_all add: get_summary_eq [OF assms(1)] summary_of_def dual_spelled_summary hit)
  have 2: "fst (cache_get (reviewCache s) now ?k) = None \<Longrightarrow>
            summary_field (fst (get_summary now s productId')) ''avg''
              = Some (JNum (spec_mean (approved_ratings s (toObjectId productId')))) \<and>
            summary_field (fst (get_summary now s productId')) ''total''
              = Some (JNum (spec_count (approved_ratings s (toObjectId productId'))))"
    by (simp add: get_summary_eq [OF assms(1)] summary_field_def field_def)
  from 1 2 cache_dual_get_summary [OF assms(2)] cache_dual_post_review [OF assms(2)]
    cache_dual_patch_approve [OF assms(2)] cache_dual_post_helpful [OF assms(2)]
  show ?thesis by blast
qed

theorem summary_both_spellings_witness:
  "summary_field (fst (get_summary 0 (ex_server Approved) ex_pid)) ''avg'' = Some (JNum 5) \<and>
   summary_field (fst (get_summary 0 (ex_server Approved) ex_pid)) ''total'' = Some (JNum 1) \<and>
   (\<exists>j. summary_of (fst (get_summary 0 (ex_server Approved) ex_pid)) = Some j \<and> dual_spelled j)"
proof -
  have d: "cache_dual (ex_server Approved)"
    by (simp add: cache_dual_def ex_server_def)
  have miss: "fst (cache_get (reviewCache (ex_server Approved)) 0 (''review-summary:'' @ ex_pid)) = None"
    by (simp add: cache_get_def ex_server_def)
  have ar: "approved_ratings (ex_server Approved) (toObjectId ex_pid) = [5]"
    by (simp add: approved_ratings_def ex_server_def ex_review_def toObjectId_ex_pid)
  have v: "spec_mean [5] = 5" "spec_count [5] = 1"
    by (simp_all add: spec_mean_def spec_count_def round1_def floor_eq_iff)
  show ?thesis
    using summary_both_spellings [OF wellFormedId_ex_pid d, where now = 0 and isEmail = "\<lambda>e. True"
            and autoPublish = True and newId = "ObjectId ex_rid"
            and req = "ex_request 5 ''works well''" and ident = ex_rid]
          miss ar v
    by simp
qed

text \<open>
  C8 as stated fails on the controller: \<open>getReviewSummary\<close> answers with \<open>distribution\<close>,
  \<open>total\<close> and \<open>avg\<close> only.
\<close>

theorem summary_both_spellings_counterexample:
  "summary_field (fst (getReviewSummary 0 (ex_server Approved) ex_pid)) ''avg'' = Some (JNum 5) \<and>
   summary_field (fst (getReviewSummary 0 (ex_server Approved) ex_pid)) ''total'' = Some (JNum 1) \<and>
   summary_field (fst (getReviewSummary 0 (ex_server Approved) ex_pid)) ''averageRating'' = None \<and>
   summary_field (fst (getReviewSummary 0 (ex_server Approved) ex_pid)) ''reviewCount'' = None"
  by (simp add: summary_field_def getReviewSummary_def isValidObjectId_def ex_pid_def isHexDigit_def
      cache_get_def ex_server_def Let_def toObjectId_def toLowerCase_def ex_review_def
      group_by_rating_def field_def Math_round_def floor_half)

text \<open>
  C9, as the code has it. \<open>POST /reviews/bulk-summary\<close> of \<open>routes/reviews.public.ts\<close>
  answers a list of any length with status 200, answers it as it answers its first 300
  identifiers, and returns keys of those 300 only.
\<close>

theorem bulk_cap_routes:
  "post_bulk_summary s (Some productIds) = post_bulk_summary s (Some (take 300 productIds)) \<and>
   code (post_bulk_summary s body_productIds) = 200 \<and>
   (\<forall>k. bulk_summary_data s productIds k \<noteq> None \<longrightarrow>
        k \<in> (\<lambda>i. toHexString (toObjectId i)) ` set (take 300 productIds))"
proof -
  have 1: "post_bulk_summary s (Some productIds) = post_bulk_summary s (Some (take 300 productIds))"
    by (simp add: post_bulk_summary_def)
  have 2: "code (post_bulk_summary s body_productIds) = 200"
    by (simp add: post_bulk_summary_def Let_def)
  have 3: "k \<in> (\<lambda>i. toHexString (toObjectId i)) ` set (take 300 productIds)"
    if "bulk_summary_data s productIds k \<noteq> None" for k
  proof -
    from that have "k \<in> dom (bulk_summary_data s productIds)" by auto
    then show ?thesis unfolding bulk_data_dom by auto
  qed
  from 1 2 3 show ?thesis by blast
qed

theorem bulk_cap_routes_witness:
  "length ex_ids301 = 301 \<and>
   code (post_bulk_summary (ex_server Approved) (Some ex_ids301)) = 200 \<and>
   post_bulk_summary (ex_server Approved) (Some ex_ids301)
     = post_bulk_summary (ex_server Approved) (Some (replicate 300 ex_rid)) \<and>
   bulk_summary_data (ex_server Approved) ex_ids301 ex_pid = None"
proof -
  have t: "take 300 ex_ids301 = replicate 300 ex_rid"
    by (simp add: ex_ids301_def)
  have n: "ex_pid \<notin> (\<lambda>i. toHexString (toObjectId i)) ` set (replicate 300 ex_rid)"
    by (simp add: toObjectId_ex_rid) (simp add: ex_pid_def ex_rid_def)
  show ?thesis
    using bulk_cap_routes [of "ex_server Approved" ex_ids301 "Some ex_ids301"] t n
    by (auto simp: ex_ids301_def)
qed

text \<open>
  C9 as stated fails on the controller: \<open>getBulkReviewSummaries\<close> has no cap, and the
  301st identifier of a list gets its summary.
\<close>

theorem bulk_cap_counterexample:
  "length ex_ids301 = 301 \<and>
   controller_bulk_data (ex_server Approved) ex_ids301 ex_pid
     = Some (JObj [(''avg'', JNum 5), (''total'', JNum 1)])"
proof -
  have f: "filter isValidObjectId ex_ids301 = ex_ids301"
    by (simp add: ex_ids301_def isValidObjectId_ex)
  have m: "map toObjectId ex_ids301 = replicate 300 (ObjectId ex_rid) @ [ObjectId ex_pid]"
    by (simp add: ex_ids301_def toObjectId_ex_pid toObjectId_ex_rid)
  have ne: "ex_ids301 \<noteq> []"
    by (simp add: ex_ids301_def)
  have g: "filter (\<lambda>r. productId r \<in> set (replicate 300 (ObjectId ex_rid) @ [ObjectId ex_pid]) \<and> status r = Approved)
             (reviews (ex_server Approved)) = [ex_review Approved]"
    by (simp add: ex_server_def ex_review_def)
  have a: "group_by_productId [ex_review Approved]
             = [\<lparr>agg_id = ObjectId ex_pid, agg_count = 1, agg_avg = 5\<rparr>]"
    by (simp add: group_by_productId_def ex_review_def)
  have r: "Math_round 50 = 50"
    by (simp add: Math_round_def floor_eq_iff)
  show ?thesis
    apply (simp only: controller_bulk_data_def getBulkReviewSummaries_def option.case Let_def f m g a)
    apply (simp add: ne r)
    apply (simp add: ex_ids301_def)
    done
qed

text \<open>
  C10. A helpful vote for a well-formed review identifier that matches no review is
  answered with status 200 and \<open>{ success: true }\<close>, and leaves the state as it was: no
  review is created or changed.
\<close>

theorem helpful_unknown_review:
  assumes "wellFormedId ident" and "findById (reviews s) (toObjectId ident) = None"
  shows "post_helpful s ident = (Response 200 Success, s)"
  using assms wellFormedId_isMongoId [OF assms(1)]
  by (simp add: post_helpful_def findById_def updateFirst_absent)

theorem helpful_unknown_review_witness:
  "post_helpful (ex_server Approved) ex_pid = (Response 200 Success, ex_server Approved)"
proof -
  have "findById (reviews (ex_server Approved)) (toObjectId ex_pid) = None"
    by (simp add: findById_def ex_server_def ex_review_def toObjectId_def toLowerCase_def
        ex_pid_def ex_rid_def)
  with wellFormedId_ex_pid show ?thesis by (rule helpful_unknown_review)
qed

end
